theory Spec2Isabelle
  imports Main "HOL-Library.Sublist" "HOL-Library.Char_ord" "HOL-Library.List_Lexorder"
    "HOL-Library.Option_ord"
begin

section \<open>Values of the program\<close>

text \<open>
  A \<open>Date\<close> is its time value, the milliseconds since the epoch (\<open>getTime()\<close>); an
  Invalid Date is outside the model. JavaScript numbers that hold sizes, pages and limits
  are integers here; \<open>NaN\<close> and fractions are outside the model. An \<open>ObjectId\<close> is its
  24-digit lower-case hexadecimal form, which is what \<open>toString()\<close> returns. Strings are
  ASCII: \<open>toLowerCase\<close> maps \<open>A\<close>..\<open>Z\<close> to \<open>a\<close>..\<open>z\<close> and \<open><\<close> on strings is the
  lexicographic order of the character codes, as in JavaScript.
\<close>

type_synonym Date = int
type_synonym ObjectId = string

definition toLowerChar :: "char \<Rightarrow> char" where
  "toLowerChar c =
     (if CHR ''A'' \<le> c \<and> c \<le> CHR ''Z'' then char_of (of_char c + (32::nat)) else c)"

definition toLowerCase :: "string \<Rightarrow> string" where
  "toLowerCase s = map toLowerChar s"

text \<open>\<open>String.prototype.includes\<close>: the needle occurs at some position of the string.\<close>

fun string_includes :: "string \<Rightarrow> string \<Rightarrow> bool" where
  "string_includes [] needle = (needle = [])"
| "string_includes (c # cs) needle = (prefix needle (c # cs) \<or> string_includes cs needle)"

subsection \<open>The schema (shared/schema.ts)\<close>

text \<open>
  \<open>User\<close> and \<open>Conversion\<close> are the insert types extended by the two fields the backend
  assigns. \<open>createdAt\<close> and \<open>convertedAt\<close> are optional in the schema
  (\<open>z.date().optional()\<close>). The field \<open>_id\<close> is written \<open>user_id\<close> and \<open>conv_id\<close>.
\<close>

record InsertUser =
  email :: string
  password :: string

record User = InsertUser +
  user_id :: ObjectId
  createdAt :: "Date option"

record InsertConversion =
  userId :: string
  filename :: string
  originalSize :: int
  xmlContent :: string

record Conversion = InsertConversion +
  conv_id :: ObjectId
  convertedAt :: "Date option"

subsection \<open>Filters, sort options, pagination (server/storage.ts)\<close>

record ConversionFilters =
  search :: "string option"
  dateFrom :: "Date option"
  dateTo :: "Date option"
  sizeMin :: "int option"
  sizeMax :: "int option"

datatype SortField = Filename | ConvertedAt | OriginalSize

datatype SortOrder = Asc | Desc

record SortOptions =
  field :: SortField
  order :: SortOrder

record PaginationOptions =
  page :: int
  limit :: int

text \<open>
  An optional field is given when it is not \<open>undefined\<close>. A \<open>Date\<close> that is given is
  truthy, so the tests \<open>if (filters.dateFrom)\<close> are tests of being given.
\<close>

definition given :: "'a option \<Rightarrow> bool" where
  "given v = (case v of None \<Rightarrow> False | Some x \<Rightarrow> True)"

section \<open>JavaScript arrays\<close>

text \<open>
  Arrays are objects: \<open>filter\<close> and \<open>slice\<close> return a new array, \<open>sort\<close> and \<open>push\<close>
  change the array they are called on. A heap maps references to array contents, and
  \<open>fresh\<close> is the next unused reference. The array operations act on a reference together
  with the heap and return the reference of their result with the new heap.
\<close>

record 'a heap =
  arrays :: "nat \<Rightarrow> 'a list"
  fresh :: nat

definition alloc :: "'a list \<Rightarrow> 'a heap \<Rightarrow> nat \<times> 'a heap" where
  "alloc xs h = (fresh h, \<lparr>arrays = (arrays h)(fresh h := xs), fresh = Suc (fresh h)\<rparr>)"

definition contents :: "nat \<times> 'a heap \<Rightarrow> 'a list" where
  "contents rh = arrays (snd rh) (fst rh)"

definition array_filter :: "('a \<Rightarrow> bool) \<Rightarrow> nat \<times> 'a heap \<Rightarrow> nat \<times> 'a heap" where
  "array_filter p rh = alloc (filter p (contents rh)) (snd rh)"

text \<open>
  \<open>slice(start, stop)\<close>: a negative index counts from the end of the array, and both
  indices are clamped to the array.
\<close>

definition js_slice :: "int \<Rightarrow> int \<Rightarrow> 'a list \<Rightarrow> 'a list" where
  "js_slice start stop xs =
     (let len = int (length xs);
          k = (if start < 0 then max (len + start) 0 else min start len);
          final = (if stop < 0 then max (len + stop) 0 else min stop len)
      in take (nat (final - k)) (drop (nat k) xs))"

definition array_slice :: "int \<Rightarrow> int \<Rightarrow> nat \<times> 'a heap \<Rightarrow> nat \<times> 'a heap" where
  "array_slice start stop rh = alloc (js_slice start stop (contents rh)) (snd rh)"

text \<open>
  \<open>sort(compareFn)\<close> is stable and sorts in place. For a comparator that is a total
  preorder the result is the one stable sorted arrangement, which inserting the elements
  from the right computes: an element goes before the first element it does not compare
  greater than.
\<close>

fun insert_by :: "('a \<Rightarrow> 'a \<Rightarrow> int) \<Rightarrow> 'a \<Rightarrow> 'a list \<Rightarrow> 'a list" where
  "insert_by cmp x [] = [x]"
| "insert_by cmp x (y # ys) = (if cmp x y \<le> 0 then x # y # ys else y # insert_by cmp x ys)"

definition sort_by :: "('a \<Rightarrow> 'a \<Rightarrow> int) \<Rightarrow> 'a list \<Rightarrow> 'a list" where
  "sort_by cmp xs = foldr (insert_by cmp) xs []"

definition array_sort :: "('a \<Rightarrow> 'a \<Rightarrow> int) \<Rightarrow> nat \<times> 'a heap \<Rightarrow> nat \<times> 'a heap" where
  "array_sort cmp rh =
     (fst rh, (snd rh)\<lparr>arrays := (arrays (snd rh))(fst rh := sort_by cmp (contents rh))\<rparr>)"

definition array_push :: "'a \<Rightarrow> nat \<times> 'a heap \<Rightarrow> 'a heap" where
  "array_push x rh = (snd rh)\<lparr>arrays := (arrays (snd rh))(fst rh := contents rh @ [x])\<rparr>"

section \<open>The in-memory backend (class MemStorage)\<close>

text \<open>
  \<open>conversions\<close> holds the reference of the stored array in \<open>store\<close>. The \<open>users\<close> array is
  only searched and pushed to, so it is kept by value. The private counters \<open>userId\<close> and
  \<open>conversionId\<close> are \<open>userIdCounter\<close> and \<open>conversionIdCounter\<close>. The session store plays
  no part in the operations and is left out.
\<close>

record MemStorage =
  users :: "User list"
  conversions :: nat
  userIdCounter :: nat
  conversionIdCounter :: nat
  store :: "Conversion heap"

definition stored :: "MemStorage \<Rightarrow> Conversion list" where
  "stored st = arrays (store st) (conversions st)"

definition mem_getUserById :: "MemStorage \<Rightarrow> string \<Rightarrow> User option \<times> MemStorage" where
  "mem_getUserById st i = (find (\<lambda>user. user_id user = i) (users st), st)"

definition mem_getUserByEmail :: "MemStorage \<Rightarrow> string \<Rightarrow> User option \<times> MemStorage" where
  "mem_getUserByEmail st e = (find (\<lambda>user. email user = e) (users st), st)"

text \<open>
  \<open>new ObjectId(n)\<close> of the bson library is the parameter \<open>mkId\<close>; \<open>new Date()\<close> is the
  clock reading \<open>now\<close>.
\<close>

definition mem_createUser ::
  "(nat \<Rightarrow> ObjectId) \<Rightarrow> Date \<Rightarrow> MemStorage \<Rightarrow> InsertUser \<Rightarrow> User \<times> MemStorage" where
  "mem_createUser mkId now st insertUser =
     (let i = mkId (userIdCounter st);
          user = \<lparr>email = email insertUser, password = password insertUser,
                  user_id = i, createdAt = Some now\<rparr>
      in (user, st\<lparr>users := users st @ [user], userIdCounter := userIdCounter st + 1\<rparr>))"

text \<open>
  The comparator of \<open>getConversions\<close>. \<open>three_way\<close> is its last \<open>if\<close>; the keys are the
  lower-cased file name, the size, or the time value of \<open>convertedAt\<close> with \<open>Date.now()\<close>
  for a record that has none. The clock is read once for the whole call.
\<close>

definition three_way :: "SortOrder \<Rightarrow> 'a::linorder \<Rightarrow> 'a \<Rightarrow> int" where
  "three_way ord valA valB =
     (if ord = Asc then (if valA > valB then 1 else if valA < valB then - 1 else 0)
      else (if valA < valB then 1 else if valA > valB then - 1 else 0))"

definition compareFn :: "Date \<Rightarrow> SortField \<Rightarrow> SortOrder \<Rightarrow> Conversion \<Rightarrow> Conversion \<Rightarrow> int" where
  "compareFn now fld ord a b =
     (if fld = Filename then three_way ord (toLowerCase (filename a)) (toLowerCase (filename b))
      else if fld = OriginalSize then three_way ord (originalSize a) (originalSize b)
      else three_way ord
             (case convertedAt a of Some t \<Rightarrow> t | None \<Rightarrow> now)
             (case convertedAt b of Some t \<Rightarrow> t | None \<Rightarrow> now))"

text \<open>
  \<open>if (filters.search)\<close> is false for the empty string; a \<open>Date\<close> object is always truthy;
  the size bounds are tested with \<open>!== undefined\<close>, so \<open>0\<close> is a bound.
\<close>

definition mem_getConversions ::
  "Date \<Rightarrow> MemStorage \<Rightarrow> string \<Rightarrow> ConversionFilters option \<Rightarrow> SortOptions option \<Rightarrow>
   PaginationOptions option \<Rightarrow> nat \<times> MemStorage" where
  "mem_getConversions now st uid filters sortOptions pagination =
     (let filtered = array_filter (\<lambda>conv. userId conv = uid) (conversions st, store st);
          filtered = (case filters of None \<Rightarrow> filtered | Some f \<Rightarrow>
            (let filtered = (case search f of None \<Rightarrow> filtered | Some s \<Rightarrow>
                   if s = [] then filtered
                   else array_filter
                          (\<lambda>conv. string_includes (toLowerCase (filename conv)) (toLowerCase s)) filtered);
                 filtered = (case dateFrom f of None \<Rightarrow> filtered | Some d \<Rightarrow>
                   array_filter
                     (\<lambda>conv. (case convertedAt conv of Some t \<Rightarrow> t | None \<Rightarrow> now) \<ge> d) filtered);
                 filtered = (case dateTo f of None \<Rightarrow> filtered | Some d \<Rightarrow>
                   array_filter
                     (\<lambda>conv. (case convertedAt conv of Some t \<Rightarrow> t | None \<Rightarrow> now) \<le> d) filtered);
                 filtered = (case sizeMin f of None \<Rightarrow> filtered | Some m \<Rightarrow>
                   array_filter (\<lambda>conv. originalSize conv \<ge> m) filtered);
                 filtered = (case sizeMax f of None \<Rightarrow> filtered | Some m \<Rightarrow>
                   array_filter (\<lambda>conv. originalSize conv \<le> m) filtered)
             in filtered));
          fld = (case sortOptions of None \<Rightarrow> ConvertedAt | Some so \<Rightarrow> field so);
          ord = (case sortOptions of None \<Rightarrow> Desc | Some so \<Rightarrow> order so);
          filtered = array_sort (compareFn now fld ord) filtered;
          filtered = (case pagination of None \<Rightarrow> filtered | Some p \<Rightarrow>
            (let startIndex = (page p - 1) * limit p
             in array_slice startIndex (startIndex + limit p) filtered))
      in (fst filtered, st\<lparr>store := snd filtered\<rparr>))"

definition mem_getConversionsCount ::
  "Date \<Rightarrow> MemStorage \<Rightarrow> string \<Rightarrow> ConversionFilters option \<Rightarrow> nat \<times> MemStorage" where
  "mem_getConversionsCount now st uid filters =
     (let filtered = array_filter (\<lambda>conv. userId conv = uid) (conversions st, store st);
          filtered = (case filters of None \<Rightarrow> filtered | Some f \<Rightarrow>
            (let filtered = (case search f of None \<Rightarrow> filtered | Some s \<Rightarrow>
                   if s = [] then filtered
                   else array_filter
                          (\<lambda>conv. string_includes (toLowerCase (filename conv)) (toLowerCase s)) filtered);
                 filtered = (case dateFrom f of None \<Rightarrow> filtered | Some d \<Rightarrow>
                   array_filter
                     (\<lambda>conv. (case convertedAt conv of Some t \<Rightarrow> t | None \<Rightarrow> now) \<ge> d) filtered);
                 filtered = (case dateTo f of None \<Rightarrow> filtered | Some d \<Rightarrow>
                   array_filter
                     (\<lambda>conv. (case convertedAt conv of Some t \<Rightarrow> t | None \<Rightarrow> now) \<le> d) filtered);
                 filtered = (case sizeMin f of None \<Rightarrow> filtered | Some m \<Rightarrow>
                   array_filter (\<lambda>conv. originalSize conv \<ge> m) filtered);
                 filtered = (case sizeMax f of None \<Rightarrow> filtered | Some m \<Rightarrow>
                   array_filter (\<lambda>conv. originalSize conv \<le> m) filtered)
             in filtered))
      in (length (contents filtered), st\<lparr>store := snd filtered\<rparr>))"

definition mem_getConversion :: "MemStorage \<Rightarrow> string \<Rightarrow> Conversion option \<times> MemStorage" where
  "mem_getConversion st i = (find (\<lambda>conv. conv_id conv = i) (stored st), st)"

definition mem_createConversion ::
  "(nat \<Rightarrow> ObjectId) \<Rightarrow> Date \<Rightarrow> MemStorage \<Rightarrow> InsertConversion \<Rightarrow> Conversion \<times> MemStorage" where
  "mem_createConversion mkId now st insertConversion =
     (let i = mkId (conversionIdCounter st);
          conversion = \<lparr>userId = userId insertConversion, filename = filename insertConversion,
                        originalSize = originalSize insertConversion,
                        xmlContent = xmlContent insertConversion,
                        conv_id = i, convertedAt = Some now\<rparr>
      in (conversion,
          st\<lparr>conversionIdCounter := conversionIdCounter st + 1,
             store := array_push conversion (conversions st, store st)\<rparr>))"

definition mem_deleteConversion :: "MemStorage \<Rightarrow> string \<Rightarrow> bool \<times> MemStorage" where
  "mem_deleteConversion st i =
     (let initialLength = length (stored st);
          kept = array_filter (\<lambda>conv. conv_id conv \<noteq> i) (conversions st, store st);
          st' = st\<lparr>conversions := fst kept, store := snd kept\<rparr>
      in (length (stored st') < initialLength, st'))"

text \<open>The sequence a call of \<open>getConversions\<close> returns: the contents of the returned array.\<close>

definition result :: "nat \<times> MemStorage \<Rightarrow> Conversion list" where
  "result out = arrays (store (snd out)) (fst out)"

text \<open>A well-formed state: the stored array has been allocated.\<close>

definition wf :: "MemStorage \<Rightarrow> bool" where
  "wf st = (conversions st < fresh (store st))"

text \<open>The state of \<open>new MemStorage()\<close>: two empty arrays, both counters at 1.\<close>

definition newMemStorage :: MemStorage where
  "newMemStorage =
     \<lparr>users = [], conversions = 0, userIdCounter = 1, conversionIdCounter = 1,
      store = \<lparr>arrays = (\<lambda>_. []), fresh = 1\<rparr>\<rparr>"

section \<open>The document store behind the persistent backend\<close>

text \<open>
  The MongoDB server and its driver are not code of this repository. What the backend
  uses of them is modelled here from their documented behaviour:
  \<^item> \<open>getCollection\<close> (server/db/mongodb.ts) answers \<open>null\<close> unless the connection is in
    state 1 once \<open>connectToDatabase\<close> has settled; \<open>readyState\<close> is that state;
  \<^item> an operation on a collection can be rejected (the connection is lost, the server
    answers with an error): \<open>rejects\<close> says that the store rejects operations;
  \<^item> \<open>new ObjectId(s)\<close> throws unless \<open>s\<close> is 24 hexadecimal digits;
  \<^item> a range clause \<open>{$gte, $lte}\<close> holds of a field that is present and within the
    bounds given; a document without the field does not match, and a clause without any
    bound is the empty document, which no date or number equals;
  \<^item> \<open>{$regex: p, $options: 'i'}\<close> is an unanchored, case-insensitive regular expression
    match. The regular expression engine is the parameter \<open>rx\<close>: \<open>rx p\<close> is \<open>None\<close> when
    the server rejects the pattern \<open>p\<close>, and the matcher of \<open>p\<close> otherwise;
  \<^item> \<open>sort({f: 1})\<close> orders by the field with the simple binary collation (strings by
    character code, case-sensitive), a missing field first; \<open>-1\<close> reverses the comparison.
    Documents with equal keys are kept in stored order here;
  \<^item> \<open>skip(n)\<close> with negative \<open>n\<close> is an error; \<open>limit(0)\<close> is no limit, and a negative
    limit returns that many documents in a single batch.
\<close>

datatype error = BSONError | DriverError | ServerError | Error string

type_synonym regex_engine = "string \<Rightarrow> (string \<Rightarrow> bool) option"

record mongo_db =
  readyState :: nat
  rejects :: bool
  users_collection :: "User list"
  conversions_collection :: "Conversion list"

definition getCollection :: "mongo_db \<Rightarrow> string \<Rightarrow> string option" where
  "getCollection db collectionName = (if readyState db = 1 then Some collectionName else None)"

definition isHexDigit :: "char \<Rightarrow> bool" where
  "isHexDigit c = (c \<in> set ''0123456789abcdefABCDEF'')"

definition newObjectId :: "string \<Rightarrow> error + ObjectId" where
  "newObjectId s =
     (if length s = 24 \<and> list_all isHexDigit s then Inr (toLowerCase s) else Inl BSONError)"

record range_clause =
  gte :: "int option"
  lte :: "int option"

record query =
  q_userId :: string
  q_filename :: "string option"
  q_convertedAt :: "range_clause option"
  q_originalSize :: "range_clause option"

definition in_range :: "range_clause \<Rightarrow> int option \<Rightarrow> bool" where
  "in_range r v =
     (case v of None \<Rightarrow> False
      | Some x \<Rightarrow>
          (given (gte r) \<or> given (lte r)) \<and>
          (case gte r of None \<Rightarrow> True | Some g \<Rightarrow> g \<le> x) \<and>
          (case lte r of None \<Rightarrow> True | Some l \<Rightarrow> x \<le> l))"

definition matches :: "(string \<Rightarrow> bool) \<Rightarrow> query \<Rightarrow> Conversion \<Rightarrow> bool" where
  "matches m q d =
     (userId d = q_userId q \<and>
      (case q_filename q of None \<Rightarrow> True | Some p \<Rightarrow> m (filename d)) \<and>
      (case q_convertedAt q of None \<Rightarrow> True | Some r \<Rightarrow> in_range r (convertedAt d)) \<and>
      (case q_originalSize q of None \<Rightarrow> True | Some r \<Rightarrow> in_range r (Some (originalSize d))))"

definition compile_query :: "regex_engine \<Rightarrow> query \<Rightarrow> error + (Conversion \<Rightarrow> bool)" where
  "compile_query rx q =
     (case q_filename q of None \<Rightarrow> Inr (matches (\<lambda>_. True) q)
      | Some p \<Rightarrow> (case rx p of None \<Rightarrow> Inl ServerError | Some m \<Rightarrow> Inr (matches m q)))"

definition compare3 :: "'a::linorder \<Rightarrow> 'a \<Rightarrow> int" where
  "compare3 x y = (if x < y then - 1 else if y < x then 1 else 0)"

definition sort_compare :: "SortField \<Rightarrow> int \<Rightarrow> Conversion \<Rightarrow> Conversion \<Rightarrow> int" where
  "sort_compare fld dir a b =
     dir * (case fld of
              Filename \<Rightarrow> compare3 (filename a) (filename b)
            | OriginalSize \<Rightarrow> compare3 (originalSize a) (originalSize b)
            | ConvertedAt \<Rightarrow> compare3 (convertedAt a) (convertedAt b))"

definition skip_limit :: "int \<Rightarrow> int \<Rightarrow> 'a list \<Rightarrow> error + 'a list" where
  "skip_limit n l docs =
     (if n < 0 then Inl ServerError
      else (let rest = drop (nat n) docs
            in Inr (if l = 0 then rest else take (nat \<bar>l\<bar>) rest)))"

text \<open>\<open>find(query).sort(sortQuery)\<close>, then \<open>skip\<close> and \<open>limit\<close> when given, then \<open>toArray()\<close>.\<close>

definition find_toArray ::
  "regex_engine \<Rightarrow> mongo_db \<Rightarrow> query \<Rightarrow> SortField \<Rightarrow> int \<Rightarrow> (int \<times> int) option \<Rightarrow>
   error + Conversion list" where
  "find_toArray rx db q fld dir paging =
     (if rejects db then Inl DriverError
      else (case compile_query rx q of Inl e \<Rightarrow> Inl e
            | Inr p \<Rightarrow>
               (let docs = sort_by (sort_compare fld dir) (filter p (conversions_collection db))
                in (case paging of None \<Rightarrow> Inr docs | Some (n, l) \<Rightarrow> skip_limit n l docs))))"

definition countDocuments :: "regex_engine \<Rightarrow> mongo_db \<Rightarrow> query \<Rightarrow> error + nat" where
  "countDocuments rx db q =
     (if rejects db then Inl DriverError
      else (case compile_query rx q of Inl e \<Rightarrow> Inl e
            | Inr p \<Rightarrow> Inr (length (filter p (conversions_collection db)))))"

definition findOne :: "mongo_db \<Rightarrow> ('a \<Rightarrow> bool) \<Rightarrow> 'a list \<Rightarrow> error + 'a option" where
  "findOne db p docs = (if rejects db then Inl DriverError else Inr (find p docs))"

fun remove_first :: "('a \<Rightarrow> bool) \<Rightarrow> 'a list \<Rightarrow> 'a list" where
  "remove_first p [] = []"
| "remove_first p (x # xs) = (if p x then xs else x # remove_first p xs)"

text \<open>\<open>deleteOne\<close> on the conversions: the deleted count with the new store.\<close>

definition deleteOne :: "mongo_db \<Rightarrow> (Conversion \<Rightarrow> bool) \<Rightarrow> error + (nat \<times> mongo_db)" where
  "deleteOne db p =
     (if rejects db then Inl DriverError
      else Inr (if list_ex p (conversions_collection db) then 1 else 0,
                db\<lparr>conversions_collection := remove_first p (conversions_collection db)\<rparr>))"

text \<open>
  A regular expression engine for the patterns made of literal characters and the
  wildcard \<open>.\<close> (any character but a line feed), matched case-insensitively at any position.
  It answers \<open>None\<close>, as for a pattern the store rejects, on every pattern that holds
  another metacharacter. A real engine rejects only some of those, an unmatched \<open>(\<close> among
  them; the other patterns of that kind are outside this engine, and no statement below
  applies it to one.
\<close>

definition is_metachar :: "char \<Rightarrow> bool" where
  "is_metachar c = (c \<in> set ''^$*+?()[]{}|'' \<or> c = CHR 0x5C)"

fun match_here :: "string \<Rightarrow> string \<Rightarrow> bool" where
  "match_here [] s = True"
| "match_here (p # ps) [] = False"
| "match_here (p # ps) (c # cs) =
     ((if p = CHR ''.'' then c \<noteq> CHR 0x0A else toLowerChar p = toLowerChar c) \<and> match_here ps cs)"

fun match_anywhere :: "string \<Rightarrow> string \<Rightarrow> bool" where
  "match_anywhere p [] = match_here p []"
| "match_anywhere p (c # cs) = (match_here p (c # cs) \<or> match_anywhere p cs)"

definition literal_dot_regex :: regex_engine where
  "literal_dot_regex p = (if list_ex is_metachar p then None else Some (match_anywhere p))"

section \<open>The persistent backend (class MongoDBStorage)\<close>

text \<open>
  A result is \<open>Inr\<close> the value the promise resolves to, or \<open>Inl\<close> the error it is rejected
  with. \<open>catch_return d\<close> is a \<open>catch\<close> block that logs and returns \<open>d\<close>; the \<open>catch\<close> block
  of the two create operations logs and throws the error again, which leaves the result
  of the body as it is.
\<close>

definition catch_return :: "'a \<Rightarrow> error + 'a \<Rightarrow> error + 'a" where
  "catch_return d body = (case body of Inl e \<Rightarrow> Inr d | Inr v \<Rightarrow> Inr v)"

definition catch_rethrow :: "error + 'a \<Rightarrow> error + 'a" where
  "catch_rethrow body = (case body of Inl e \<Rightarrow> Inl e | Inr v \<Rightarrow> Inr v)"

definition mongo_getUserById :: "mongo_db \<Rightarrow> string \<Rightarrow> error + User option" where
  "mongo_getUserById db i =
     catch_return None
       (case getCollection db ''users'' of None \<Rightarrow> Inr None
        | Some usersCollection \<Rightarrow>
            (case newObjectId i of Inl e \<Rightarrow> Inl e
             | Inr oid \<Rightarrow> findOne db (\<lambda>u. user_id u = oid) (users_collection db)))"

definition mongo_getUserByEmail :: "mongo_db \<Rightarrow> string \<Rightarrow> error + User option" where
  "mongo_getUserByEmail db e =
     catch_return None
       (case getCollection db ''users'' of None \<Rightarrow> Inr None
        | Some usersCollection \<Rightarrow> findOne db (\<lambda>u. email u = e) (users_collection db))"

text \<open>\<open>insertedId\<close> is the identifier the driver assigns to the inserted document.\<close>

definition mongo_createUser ::
  "ObjectId \<Rightarrow> Date \<Rightarrow> mongo_db \<Rightarrow> InsertUser \<Rightarrow> (error + User) \<times> mongo_db" where
  "mongo_createUser insertedId now db insertUser =
     (case getCollection db ''users'' of
        None \<Rightarrow> (catch_rethrow (Inl (Error ''MongoDB collection not available'')), db)
      | Some usersCollection \<Rightarrow>
          if rejects db then (catch_rethrow (Inl DriverError), db)
          else (let user = \<lparr>email = email insertUser, password = password insertUser,
                            user_id = insertedId, createdAt = Some now\<rparr>
                in (catch_rethrow (Inr user),
                    db\<lparr>users_collection := users_collection db @ [user]\<rparr>)))"

definition mongo_getConversions ::
  "regex_engine \<Rightarrow> mongo_db \<Rightarrow> string \<Rightarrow> ConversionFilters option \<Rightarrow> SortOptions option \<Rightarrow>
   PaginationOptions option \<Rightarrow> error + Conversion list" where
  "mongo_getConversions rx db uid filters sortOptions pagination =
     catch_return []
       (case getCollection db ''conversions'' of None \<Rightarrow> Inr []
        | Some conversionsCollection \<Rightarrow>
            (let query = \<lparr>q_userId = uid, q_filename = None, q_convertedAt = None,
                          q_originalSize = None\<rparr>;
                 query = (case filters of None \<Rightarrow> query | Some f \<Rightarrow>
                   (let query = (case search f of None \<Rightarrow> query | Some s \<Rightarrow>
                          if s = [] then query else query\<lparr>q_filename := Some s\<rparr>);
                        query = (if given (dateFrom f) \<or> given (dateTo f)
                          then query\<lparr>q_convertedAt := Some \<lparr>gte = dateFrom f, lte = dateTo f\<rparr>\<rparr>
                          else query);
                        query = (if given (sizeMin f) \<or> given (sizeMax f)
                          then query\<lparr>q_originalSize := Some \<lparr>gte = sizeMin f, lte = sizeMax f\<rparr>\<rparr>
                          else query)
                    in query));
                 sortField = (case sortOptions of None \<Rightarrow> ConvertedAt | Some so \<Rightarrow> field so);
                 sortOrder = (case sortOptions of None \<Rightarrow> - 1
                              | Some so \<Rightarrow> if order so = Asc then 1 else - 1);
                 paging = (case pagination of None \<Rightarrow> None
                           | Some p \<Rightarrow> Some ((page p - 1) * limit p, limit p))
             in find_toArray rx db query sortField sortOrder paging))"

definition mongo_getConversionsCount ::
  "regex_engine \<Rightarrow> mongo_db \<Rightarrow> string \<Rightarrow> ConversionFilters option \<Rightarrow> error + nat" where
  "mongo_getConversionsCount rx db uid filters =
     catch_return 0
       (case getCollection db ''conversions'' of None \<Rightarrow> Inr 0
        | Some conversionsCollection \<Rightarrow>
            (let query = \<lparr>q_userId = uid, q_filename = None, q_convertedAt = None,
                          q_originalSize = None\<rparr>;
                 query = (case filters of None \<Rightarrow> query | Some f \<Rightarrow>
                   (let query = (case search f of None \<Rightarrow> query | Some s \<Rightarrow>
                          if s = [] then query else query\<lparr>q_filename := Some s\<rparr>);
                        query = (if given (dateFrom f) \<or> given (dateTo f)
                          then query\<lparr>q_convertedAt := Some \<lparr>gte = dateFrom f, lte = dateTo f\<rparr>\<rparr>
                          else query);
                        query = (if given (sizeMin f) \<or> given (sizeMax f)
                          then query\<lparr>q_originalSize := Some \<lparr>gte = sizeMin f, lte = sizeMax f\<rparr>\<rparr>
                          else query)
                    in query))
             in countDocuments rx db query))"

definition mongo_getConversion :: "mongo_db \<Rightarrow> string \<Rightarrow> error + Conversion option" where
  "mongo_getConversion db i =
     catch_return None
       (case getCollection db ''conversions'' of None \<Rightarrow> Inr None
        | Some conversionsCollection \<Rightarrow>
            (case newObjectId i of Inl e \<Rightarrow> Inl e
             | Inr oid \<Rightarrow> findOne db (\<lambda>c. conv_id c = oid) (conversions_collection db)))"

definition mongo_createConversion ::
  "ObjectId \<Rightarrow> Date \<Rightarrow> mongo_db \<Rightarrow> InsertConversion \<Rightarrow> (error + Conversion) \<times> mongo_db" where
  "mongo_createConversion insertedId now db insertConversion =
     (case getCollection db ''conversions'' of
        None \<Rightarrow> (catch_rethrow (Inl (Error ''MongoDB collection not available'')), db)
      | Some conversionsCollection \<Rightarrow>
          if rejects db then (catch_rethrow (Inl DriverError), db)
          else (let conversion =
                      \<lparr>userId = userId insertConversion, filename = filename insertConversion,
                       originalSize = originalSize insertConversion,
                       xmlContent = xmlContent insertConversion,
                       conv_id = insertedId, convertedAt = Some now\<rparr>
                in (catch_rethrow (Inr conversion),
                    db\<lparr>conversions_collection := conversions_collection db @ [conversion]\<rparr>)))"

definition mongo_deleteConversion :: "mongo_db \<Rightarrow> string \<Rightarrow> (error + bool) \<times> mongo_db" where
  "mongo_deleteConversion db i =
     (case getCollection db ''conversions'' of None \<Rightarrow> (catch_return False (Inr False), db)
      | Some conversionsCollection \<Rightarrow>
          (case newObjectId i of Inl e \<Rightarrow> (catch_return False (Inl e), db)
           | Inr oid \<Rightarrow>
               (case deleteOne db (\<lambda>c. conv_id c = oid) of
                  Inl e \<Rightarrow> (catch_return False (Inl e), db)
                | Inr (deletedCount, db') \<Rightarrow> (catch_return False (Inr (deletedCount > 0)), db'))))"

section \<open>The storage manager (storage-manager.ts, the second module in server/db/mongodb.ts)\<close>

text \<open>
  The module state: the two backends, the reference \<open>activeStorage\<close>, the flag
  \<open>hasAttemptedMigration\<close>, the lazily created \<open>mongoStorage\<close> and the lines written to
  the console. \<open>activeStorage\<close> refers to an instance of \<open>MemStorage\<close>, to an instance of
  \<open>MongoDBStorage\<close>, or to some other implementation of \<open>IStorage\<close> handed to
  \<open>setStorage\<close>.
\<close>

datatype storage_ref = MemStorageRef | MongoDBStorageRef | OtherStorageRef

record MongoDBStorage =
  connectionOK :: bool

record manager =
  memStorage :: MemStorage
  database :: mongo_db
  activeStorage :: storage_ref
  hasAttemptedMigration :: bool
  mongoStorage :: "MongoDBStorage option"
  console :: "string list"

definition console_log :: "string \<Rightarrow> manager \<Rightarrow> manager" where
  "console_log line m = m\<lparr>console := console m @ [line]\<rparr>"

definition attempt_line :: string where
  "attempt_line = ''Attempting to migrate data from memory storage to MongoDB...''"

text \<open>
  \<open>migrateMemoryToMongo\<close> sets the flag, writes two lines and returns. Its two arguments,
  the backends, are part of the module state here. \<open>fails\<close> says that the body of its
  \<open>try\<close> throws; the \<open>catch\<close> block then logs and throws again, which rejects the promise
  the function returns. \<open>setStorage\<close> does not await that promise, so its own \<open>catch\<close>
  block never runs.
\<close>

definition migrateMemoryToMongo :: "bool \<Rightarrow> manager \<Rightarrow> (error + unit) \<times> manager" where
  "migrateMemoryToMongo fails m =
     (let m = m\<lparr>hasAttemptedMigration := True\<rparr>;
          m = console_log attempt_line m
      in if fails
         then (Inl (Error ''console''),
               console_log ''Error migrating data from memory to MongoDB:'' m)
         else (Inr (), console_log ''Migration of data from memory to MongoDB completed'' m))"

definition setStorage :: "bool \<Rightarrow> storage_ref \<Rightarrow> manager \<Rightarrow> manager" where
  "setStorage fails storage m =
     (let previousStorage = activeStorage m;
          m = m\<lparr>activeStorage := storage\<rparr>;
          m = console_log ''Storage implementation has been updated'' m;
          m = console_log
                (if storage = MongoDBStorageRef then ''Now using: MongoDB storage''
                 else if storage = MemStorageRef then ''Now using: In-memory storage''
                 else ''Now using: Unknown storage type'') m
      in if previousStorage = MemStorageRef \<and> storage = MongoDBStorageRef \<and>
            \<not> hasAttemptedMigration m
         then snd (migrateMemoryToMongo fails m)
         else m)"

text \<open>\<open>ctor_fails\<close> says that the constructor of \<open>MongoDBStorage\<close> throws.\<close>

definition getMongoStorage :: "bool \<Rightarrow> manager \<Rightarrow> MongoDBStorage option \<times> manager" where
  "getMongoStorage ctor_fails m =
     (case mongoStorage m of
        Some s \<Rightarrow> (Some s, m)
      | None \<Rightarrow>
          if ctor_fails
          then (None, (console_log ''Failed to initialize MongoDB storage:'' m)\<lparr>mongoStorage := None\<rparr>)
          else (let s = \<lparr>connectionOK = False\<rparr>
                in (Some s,
                    console_log ''MongoDB storage initialized successfully''
                      (m\<lparr>mongoStorage := Some s\<rparr>))))"

text \<open>\<open>isConnected\<close> is the variable of that name exported by server/db/mongodb.ts.\<close>

definition useMongoDBWithFallback :: "bool \<Rightarrow> bool \<Rightarrow> bool \<Rightarrow> manager \<Rightarrow> bool \<times> manager" where
  "useMongoDBWithFallback isConnected ctor_fails fails m =
     (let (mongo, m) = getMongoStorage ctor_fails m
      in case mongo of
           None \<Rightarrow>
             (if activeStorage m \<noteq> MemStorageRef
              then (False, console_log ''Using in-memory storage (MongoDB not initialized)''
                             (setStorage fails MemStorageRef m))
              else (False, m))
         | Some s \<Rightarrow>
             if isConnected
             then (if activeStorage m \<noteq> MongoDBStorageRef
                   then (True, console_log ''Using MongoDB storage (connected)''
                                 (setStorage fails MongoDBStorageRef m))
                   else (True, m))
             else (if activeStorage m \<noteq> MemStorageRef
                   then (False, console_log ''Using in-memory storage (MongoDB not connected)''
                                  (setStorage fails MemStorageRef m))
                   else (False, m)))"

text \<open>
  What can happen to the module state during a run: the periodic probe, or a call of the
  exported \<open>setStorage\<close>. A run is a sequence of such events.
\<close>

datatype event = Probe bool bool bool | SetStorage bool storage_ref

fun step :: "event \<Rightarrow> manager \<Rightarrow> manager" where
  "step (Probe isConnected ctor_fails fails) m =
     snd (useMongoDBWithFallback isConnected ctor_fails fails m)"
| "step (SetStorage fails storage) m = setStorage fails storage m"

definition run :: "event list \<Rightarrow> manager \<Rightarrow> manager" where
  "run evs m = fold step evs m"

definition attempts :: "manager \<Rightarrow> nat" where
  "attempts m = count_list (console m) attempt_line"

text \<open>The module state after loading: memory is active, nothing has been attempted.\<close>

definition initial :: "MemStorage \<Rightarrow> mongo_db \<Rightarrow> manager" where
  "initial mem db =
     \<lparr>memStorage = mem, database = db, activeStorage = MemStorageRef,
      hasAttemptedMigration = False, mongoStorage = None, console = []\<rparr>"

section \<open>The specification's notions\<close>

text \<open>
  The slice \<open>[lo, hi)\<close> of a sequence: the elements whose position \<open>i\<close> satisfies
  \<open>lo \<le> i < hi\<close>, in order.
\<close>

definition interval_slice :: "int \<Rightarrow> int \<Rightarrow> 'a list \<Rightarrow> 'a list" where
  "interval_slice lo hi xs =
     map snd (filter (\<lambda>(i, x). lo \<le> int i \<and> int i < hi) (enumerate 0 xs))"

text \<open>
  The filter predicate of the contract: every filter that is provided accepts the record.
  \<open>effective_date now c\<close> is the date the in-memory backend compares: \<open>convertedAt\<close>, or
  the clock for a record that has none.
\<close>

definition effective_date :: "Date \<Rightarrow> Conversion \<Rightarrow> Date" where
  "effective_date now c = (case convertedAt c of Some t \<Rightarrow> t | None \<Rightarrow> now)"

definition accepts :: "Date \<Rightarrow> ConversionFilters option \<Rightarrow> Conversion \<Rightarrow> bool" where
  "accepts now filters c =
     (case filters of None \<Rightarrow> True
      | Some f \<Rightarrow>
          (case search f of None \<Rightarrow> True
           | Some s \<Rightarrow> sublist (toLowerCase s) (toLowerCase (filename c))) \<and>
          (case dateFrom f of None \<Rightarrow> True | Some d \<Rightarrow> d \<le> effective_date now c) \<and>
          (case dateTo f of None \<Rightarrow> True | Some d \<Rightarrow> effective_date now c \<le> d) \<and>
          (case sizeMin f of None \<Rightarrow> True | Some m \<Rightarrow> m \<le> originalSize c) \<and>
          (case sizeMax f of None \<Rightarrow> True | Some m \<Rightarrow> originalSize c \<le> m))"






text \<open>The in-memory state that holds the given array in place of the stored one.\<close>

definition holding :: "MemStorage \<Rightarrow> Conversion list \<Rightarrow> MemStorage" where
  "holding st xs = st\<lparr>store := (store st)\<lparr>arrays := (arrays (store st))(conversions st := xs)\<rparr>\<rparr>"

text \<open>
  A read leaves the in-memory state as it was: the users, the reference and the contents
  of the stored array (order included), the counters, and every array allocated before
  the call.
\<close>

definition unchanged :: "MemStorage \<Rightarrow> MemStorage \<Rightarrow> bool" where
  "unchanged st st' =
     (users st' = users st \<and> conversions st' = conversions st \<and> stored st' = stored st \<and>
      userIdCounter st' = userIdCounter st \<and> conversionIdCounter st' = conversionIdCounter st \<and>
      list_all (\<lambda>r. arrays (store st') r = arrays (store st) r) [0..<fresh (store st)])"

text \<open>
  An array reference with a heap that was reached from the heap \<open>h\<close> by allocating and by
  writing to arrays allocated since: the reference is one of the new arrays, and the
  arrays of \<open>h\<close> are as they were.
\<close>

definition keeps :: "'a heap \<Rightarrow> nat \<times> 'a heap \<Rightarrow> bool" where
  "keeps h rh =
     (fresh h \<le> fst rh \<and> fst rh < fresh (snd rh) \<and>
      list_all (\<lambda>r. arrays (snd rh) r = arrays h r) [0..<fresh h])"

text \<open>A collection holds a conversion with the given identifier.\<close>

definition present :: "Conversion list \<Rightarrow> ObjectId \<Rightarrow> bool" where
  "present docs i = list_ex (\<lambda>c. conv_id c = i) docs"

text \<open>
  The query document that \<open>getConversions\<close> and \<open>getConversionsCount\<close> of the persistent
  backend build from the user and the filters, written in one piece.
\<close>

definition built_query :: "string \<Rightarrow> ConversionFilters option \<Rightarrow> query" where
  "built_query uid filters =
     \<lparr>q_userId = uid,
      q_filename = (case filters of None \<Rightarrow> None
        | Some f \<Rightarrow> (case search f of None \<Rightarrow> None | Some s \<Rightarrow> if s = [] then None else Some s)),
      q_convertedAt = (case filters of None \<Rightarrow> None
        | Some f \<Rightarrow> if given (dateFrom f) \<or> given (dateTo f)
                    then Some \<lparr>gte = dateFrom f, lte = dateTo f\<rparr> else None),
      q_originalSize = (case filters of None \<Rightarrow> None
        | Some f \<Rightarrow> if given (sizeMin f) \<or> given (sizeMax f)
                    then Some \<lparr>gte = sizeMin f, lte = sizeMax f\<rparr> else None)\<rparr>"

section \<open>Sample data\<close>

definition sample :: "ObjectId \<Rightarrow> string \<Rightarrow> int \<Rightarrow> Date option \<Rightarrow> Conversion" where
  "sample i name bytes at =
     \<lparr>userId = ''u1'', filename = name, originalSize = bytes, xmlContent = ''<document/>'',
      conv_id = i, convertedAt = at\<rparr>"

definition id1 :: ObjectId where "id1 = ''000000000000000000000001''"
definition id2 :: ObjectId where "id2 = ''000000000000000000000002''"
definition id3 :: ObjectId where "id3 = ''000000000000000000000003''"

definition two_files :: "Conversion list" where
  "two_files = [sample id1 ''B.pdf'' 10 (Some 5), sample id2 ''a.pdf'' 20 (Some 6)]"


text \<open>The in-memory backend after one conversion was created at clock reading 5.\<close>

definition after_upload :: MemStorage where
  "after_upload =
     snd (mem_createConversion (\<lambda>n. id1) 5 newMemStorage
            \<lparr>userId = ''u1'', filename = ''a.pdf'', originalSize = 20,
             xmlContent = ''<document/>''\<rparr>)"

text \<open>An in-memory backend that holds the given conversions, and a reachable store that
  holds them.\<close>

definition memory :: "Conversion list \<Rightarrow> MemStorage" where
  "memory xs = holding newMemStorage xs"

definition persistent :: "Conversion list \<Rightarrow> mongo_db" where
  "persistent xs = \<lparr>readyState = 1, rejects = False, users_collection = [],
                    conversions_collection = xs\<rparr>"

section \<open>Array lemmas\<close>

lemma contents_alloc: "contents (alloc xs h) = xs"
  by (simp add: contents_def alloc_def)

lemma contents_array_filter: "contents (array_filter p rh) = filter p (contents rh)"
  by (simp add: array_filter_def contents_alloc)

lemma contents_array_sort: "contents (array_sort cmp rh) = sort_by cmp (contents rh)"
  by (simp add: array_sort_def contents_def)

lemma contents_array_slice: "contents (array_slice a b rh) = js_slice a b (contents rh)"
  by (simp add: array_slice_def contents_alloc)

subsection \<open>Sorting\<close>

lemma length_insert_by: "length (insert_by cmp x xs) = Suc (length xs)"
  by (induction xs) simp_all

lemma length_sort_by: "length (sort_by cmp xs) = length xs"
  by (induction xs) (simp_all add: sort_by_def length_insert_by)

lemma set_insert_by: "set (insert_by cmp x xs) = insert x (set xs)"
  by (induction xs) auto

lemma set_sort_by: "set (sort_by cmp xs) = set xs"
  by (induction xs) (simp_all add: sort_by_def set_insert_by)



subsection \<open>Slices\<close>

lemma interval_enumerate:
  "map snd (filter (\<lambda>(i, x). a \<le> i \<and> i < b) (enumerate n xs)) =
     take (b - max a n) (drop (a - n) xs)"
proof (induction xs arbitrary: n)
  case Nil
  then show ?case by simp
next
  case (Cons x xs)
  show ?case
  proof (cases "n < a")
    case True
    then have "a - n = Suc (a - Suc n)" "max a (Suc n) = a" "max a n = a" by simp_all
    with True show ?thesis by (simp add: Cons.IH)
  next
    case False
    then have *: "a - n = 0" "a - Suc n = 0" "max a (Suc n) = Suc n" "max a n = n" by simp_all
    show ?thesis
    proof (cases "n < b")
      case True
      then have "b - n = Suc (b - Suc n)" by simp
      with False True * show ?thesis by (simp add: Cons.IH)
    next
      case False
      with * \<open>\<not> n < a\<close> show ?thesis by (simp add: Cons.IH)
    qed
  qed
qed

lemma interval_slice_take_drop:
  assumes "0 \<le> lo"
  shows "interval_slice lo hi xs = take (nat hi - nat lo) (drop (nat lo) xs)"
proof -
  have "(\<lambda>(i::nat, x::'a). lo \<le> int i \<and> int i < hi) = (\<lambda>(i, x). nat lo \<le> i \<and> i < nat hi)"
    using assms by (auto simp: fun_eq_iff)
  then show ?thesis
    unfolding interval_slice_def by (simp add: interval_enumerate)
qed



lemma skip_limit_interval:
  assumes "0 \<le> lo" and "1 \<le> n"
  shows "skip_limit lo n xs = Inr (interval_slice lo (lo + n) xs)"
proof -
  have "nat (lo + n) - nat lo = nat n" "\<bar>n\<bar> = n" "n \<noteq> 0"
    using assms by (simp_all add: nat_add_distrib)
  then show ?thesis
    using assms by (simp add: skip_limit_def Let_def interval_slice_take_drop)
qed

subsection \<open>Frames\<close>

lemma keeps_start: "keeps h (alloc xs h)"
  by (simp add: keeps_def alloc_def list_all_iff)

lemma keeps_alloc: "keeps h rh \<Longrightarrow> keeps h (alloc xs (snd rh))"
  by (auto simp: keeps_def alloc_def list_all_iff)

lemma keeps_array_filter0: "keeps h (array_filter p (r, h))"
  by (simp add: array_filter_def keeps_start)

lemma keeps_array_filter: "keeps h rh \<Longrightarrow> keeps h (array_filter p rh)"
  by (simp add: array_filter_def keeps_alloc)

lemma keeps_array_slice: "keeps h rh \<Longrightarrow> keeps h (array_slice a b rh)"
  by (simp add: array_slice_def keeps_alloc)

lemma keeps_array_sort: "keeps h rh \<Longrightarrow> keeps h (array_sort cmp rh)"
  by (auto simp: keeps_def array_sort_def list_all_iff)

lemmas keeps_intros = keeps_array_filter0 keeps_array_filter keeps_array_slice keeps_array_sort

lemma keeps_unchanged:
  assumes "keeps (store st) rh" and "wf st"
  shows "unchanged st (st\<lparr>store := snd rh\<rparr>)"
  using assms by (auto simp: keeps_def wf_def unchanged_def stored_def list_all_iff)

lemma mem_getConversions_keeps:
  "keeps (store st) (fst (mem_getConversions now st uid filters sortOptions pagination),
                     store (snd (mem_getConversions now st uid filters sortOptions pagination)))"
proof (cases filters)
  case None
  then show ?thesis
    by (cases pagination)
      (simp_all add: mem_getConversions_def Let_def, (intro keeps_intros)+)
next
  case (Some f)
  then show ?thesis
    by (cases "search f"; cases "dateFrom f"; cases "dateTo f"; cases "sizeMin f";
        cases "sizeMax f"; cases pagination;
        simp add: mem_getConversions_def Let_def; intro conjI impI keeps_intros)
qed

lemma mem_getConversions_state:
  "snd (mem_getConversions now st uid filters sortOptions pagination) =
     st\<lparr>store := store (snd (mem_getConversions now st uid filters sortOptions pagination))\<rparr>"
  by (simp add: mem_getConversions_def Let_def)

lemma mem_getConversionsCount_keeps:
  "keeps (store st) (fresh (store st), store (snd (mem_getConversionsCount now st uid filters)))"
proof (cases filters)
  case None
  then show ?thesis
    by (simp add: mem_getConversionsCount_def Let_def keeps_def array_filter_def alloc_def list_all_iff)
next
  case (Some f)
  have *: "keeps h rh \<Longrightarrow> fresh h \<le> r \<Longrightarrow> r < fresh (snd rh) \<Longrightarrow> keeps h (r, snd rh)" for h r and rh :: "nat \<times> Conversion heap"
    by (simp add: keeps_def)
  have **: "keeps h rh \<Longrightarrow> fresh h < fresh (snd rh)" for h and rh :: "nat \<times> Conversion heap"
    by (simp add: keeps_def)
  from Some show ?thesis
    by (cases "search f"; cases "dateFrom f"; cases "dateTo f"; cases "sizeMin f";
        cases "sizeMax f";
        simp add: mem_getConversionsCount_def Let_def; intro conjI impI * ** keeps_intros order_refl)
qed

lemma mem_getConversionsCount_state:
  "snd (mem_getConversionsCount now st uid filters) =
     st\<lparr>store := store (snd (mem_getConversionsCount now st uid filters))\<rparr>"
  by (simp add: mem_getConversionsCount_def Let_def)


subsection \<open>What the in-memory queries return\<close>

lemma string_includes_sublist: "string_includes h n = sublist n h"
  by (induction h) (auto simp: sublist_Cons_right)

lemma contents_start: "contents (conversions st, store st) = stored st"
  by (simp add: contents_def stored_def)

lemma result_contents: "result (fst rh, st\<lparr>store := snd rh\<rparr>) = contents rh"
  by (simp add: result_def contents_def)

lemma toLowerCase_Nil: "toLowerCase [] = []"
  by (simp add: toLowerCase_def)

lemmas mem_simps = toLowerCase_Nil Let_def result_contents contents_array_filter
  contents_array_sort contents_array_slice contents_start accepts_def effective_date_def
  string_includes_sublist

lemma mem_getConversions_result:
  "result (mem_getConversions now st uid filters sortOptions pagination) =
     (case pagination of None \<Rightarrow> (\<lambda>xs. xs) | Some p \<Rightarrow>
        js_slice ((page p - 1) * limit p) ((page p - 1) * limit p + limit p))
       (sort_by (compareFn now (case sortOptions of None \<Rightarrow> ConvertedAt | Some so \<Rightarrow> field so)
                              (case sortOptions of None \<Rightarrow> Desc | Some so \<Rightarrow> order so))
          (filter (\<lambda>c. userId c = uid \<and> accepts now filters c) (stored st)))"
proof (cases filters)
  case None
  then show ?thesis
    by (cases pagination) (simp_all add: mem_getConversions_def mem_simps)
next
  case (Some f)
  then show ?thesis
    by (cases "search f"; cases "dateFrom f"; cases "dateTo f"; cases "sizeMin f";
        cases "sizeMax f"; cases pagination;
        simp add: mem_getConversions_def mem_simps)
qed

lemma mem_getConversionsCount_result:
  "fst (mem_getConversionsCount now st uid filters) =
     length (filter (\<lambda>c. userId c = uid \<and> accepts now filters c) (stored st))"
proof (cases filters)
  case None
  then show ?thesis
    by (simp add: mem_getConversionsCount_def mem_simps)
next
  case (Some f)
  then show ?thesis
    by (cases "search f"; cases "dateFrom f"; cases "dateTo f"; cases "sizeMin f";
        cases "sizeMax f"; simp add: mem_getConversionsCount_def mem_simps)
qed

subsection \<open>What the persistent queries return\<close>

lemma count_find:
  "map_sum id length (catch_return [] (find_toArray rx db q fld dir None)) =
     catch_return 0 (countDocuments rx db q)"
  by (simp add: find_toArray_def countDocuments_def catch_return_def length_sort_by
      split: sum.splits)

lemma interval_slice_Nil: "interval_slice lo hi [] = []"
  by (simp add: interval_slice_def)

lemma paged_find:
  assumes "0 \<le> n" and "1 \<le> l"
  shows "catch_return [] (find_toArray rx db q fld dir (Some (n, l))) =
     map_sum id (interval_slice n (n + l)) (catch_return [] (find_toArray rx db q fld dir None))"
  using assms
  by (simp add: find_toArray_def catch_return_def skip_limit_interval interval_slice_Nil
      split: sum.splits)

lemma unchanged_refl: "unchanged st st"
  by (simp add: unchanged_def list_all_iff)


subsection \<open>A missing date\<close>












lemma stored_holding: "stored (holding st xs) = xs"
  by (simp add: stored_def holding_def)




lemma wf_memory: "wf (memory xs)"
  by (simp add: wf_def memory_def holding_def newMemStorage_def)


lemma stored_memory: "stored (memory xs) = xs"
  by (simp add: memory_def stored_holding)


subsection \<open>Deleting\<close>

lemma filter_shorter: "(length (filter P xs) < length xs) = list_ex (\<lambda>x. \<not> P x) xs"
proof (induction xs)
  case Nil
  then show ?case by simp
next
  case (Cons x xs)
  have "length (filter P xs) \<le> length xs" by simp
  with Cons show ?case by (auto simp: less_Suc_eq_le)
qed

lemma mem_deleteConversion_stored:
  "stored (snd (mem_deleteConversion st i)) = filter (\<lambda>c. conv_id c \<noteq> i) (stored st)"
  by (simp add: mem_deleteConversion_def Let_def stored_def array_filter_def alloc_def contents_def)

lemma mem_deleteConversion_fst:
  "fst (mem_deleteConversion st i) = present (stored st) i"
  using mem_deleteConversion_stored [of st i]
  by (simp add: mem_deleteConversion_def Let_def present_def filter_shorter)

lemma present_filter: "present (filter (\<lambda>c. conv_id c \<noteq> i) xs) i = False"
  by (simp add: present_def list_ex_iff)

lemma set_remove_first: "set (remove_first p xs) \<subseteq> set xs"
  by (induction xs) auto

lemma present_remove_first:
  "distinct (map conv_id xs) \<Longrightarrow> present (remove_first (\<lambda>c. conv_id c = i) xs) i = False"
proof (induction xs)
  case Nil
  then show ?case by (simp add: present_def)
next
  case (Cons x xs)
  show ?case
  proof (cases "conv_id x = i")
    case True
    from Cons.prems have "conv_id x \<notin> conv_id ` set xs" by simp
    then have "\<forall>c\<in>set xs. conv_id c \<noteq> conv_id x" by (metis imageI)
    with True show ?thesis by (simp add: present_def list_ex_iff)
  next
    case False
    with Cons show ?thesis by (simp add: present_def)
  qed
qed

lemma remove_first_absent:
  "\<not> present xs i \<Longrightarrow> remove_first (\<lambda>c. conv_id c = i) xs = xs"
  by (induction xs) (auto simp: present_def)

lemma distinct_remove_first:
  "distinct (map conv_id xs) \<Longrightarrow> distinct (map conv_id (remove_first p xs))"
proof (induction xs)
  case Nil
  then show ?case by simp
next
  case (Cons x xs)
  have "set (remove_first p xs) \<subseteq> set xs"
    by (rule set_remove_first)
  with Cons show ?case by auto
qed

lemma mongo_deleteConversion_cases:
  "mongo_deleteConversion db i =
     (case newObjectId i of Inl e \<Rightarrow> (Inr False, db)
      | Inr oid \<Rightarrow>
          if readyState db = 1 \<and> \<not> rejects db \<and> present (conversions_collection db) oid
          then (Inr True, db\<lparr>conversions_collection :=
                   remove_first (\<lambda>c. conv_id c = oid) (conversions_collection db)\<rparr>)
          else (Inr False, db))"
  by (auto simp: mongo_deleteConversion_def getCollection_def deleteOne_def catch_return_def
      present_def remove_first_absent split: sum.splits)

subsection \<open>The storage manager\<close>

lemma attempts_console_log:
  "attempts (console_log line m) = attempts m + (if line = attempt_line then 1 else 0)"
  by (simp add: attempts_def console_log_def)

lemma console_log_fields:
  "hasAttemptedMigration (console_log line m) = hasAttemptedMigration m"
  "activeStorage (console_log line m) = activeStorage m"
  "mongoStorage (console_log line m) = mongoStorage m"
  "database (console_log line m) = database m"
  "memStorage (console_log line m) = memStorage m"
  by (simp_all add: console_log_def)

lemma other_lines:
  "''Storage implementation has been updated'' \<noteq> attempt_line"
  "''Now using: MongoDB storage'' \<noteq> attempt_line"
  "''Now using: In-memory storage'' \<noteq> attempt_line"
  "''Now using: Unknown storage type'' \<noteq> attempt_line"
  "''Error migrating data from memory to MongoDB:'' \<noteq> attempt_line"
  "''Migration of data from memory to MongoDB completed'' \<noteq> attempt_line"
  "''Failed to initialize MongoDB storage:'' \<noteq> attempt_line"
  "''MongoDB storage initialized successfully'' \<noteq> attempt_line"
  "''Using in-memory storage (MongoDB not initialized)'' \<noteq> attempt_line"
  "''Using MongoDB storage (connected)'' \<noteq> attempt_line"
  "''Using in-memory storage (MongoDB not connected)'' \<noteq> attempt_line"
  by (simp_all add: attempt_line_def)

lemma attempts_update:
  "attempts (m\<lparr>hasAttemptedMigration := b\<rparr>) = attempts m"
  "attempts (m\<lparr>activeStorage := s\<rparr>) = attempts m"
  "attempts (m\<lparr>mongoStorage := x\<rparr>) = attempts m"
  by (simp_all add: attempts_def)

lemma migrate_effect:
  "hasAttemptedMigration (snd (migrateMemoryToMongo fails m))"
  "attempts (snd (migrateMemoryToMongo fails m)) = attempts m + 1"
  "database (snd (migrateMemoryToMongo fails m)) = database m"
  "memStorage (snd (migrateMemoryToMongo fails m)) = memStorage m"
  "activeStorage (snd (migrateMemoryToMongo fails m)) = activeStorage m"
  by (simp_all add: migrateMemoryToMongo_def Let_def attempts_console_log console_log_fields
      other_lines attempts_update)

lemma setStorage_effect:
  "database (setStorage fails s m) = database m"
  "memStorage (setStorage fails s m) = memStorage m"
  "activeStorage (setStorage fails s m) = s"
  "hasAttemptedMigration m \<Longrightarrow> hasAttemptedMigration (setStorage fails s m)"
  "hasAttemptedMigration m \<Longrightarrow> attempts (setStorage fails s m) = attempts m"
  "attempts (setStorage fails s m) =
     attempts m + (if hasAttemptedMigration (setStorage fails s m) \<and> \<not> hasAttemptedMigration m
                   then 1 else 0)"
  by (simp_all add: setStorage_def Let_def migrate_effect attempts_console_log
      console_log_fields other_lines attempts_update)

lemma getMongoStorage_effect:
  "database (snd (getMongoStorage c m)) = database m"
  "memStorage (snd (getMongoStorage c m)) = memStorage m"
  "activeStorage (snd (getMongoStorage c m)) = activeStorage m"
  "hasAttemptedMigration (snd (getMongoStorage c m)) = hasAttemptedMigration m"
  "attempts (snd (getMongoStorage c m)) = attempts m"
  by (simp_all add: getMongoStorage_def Let_def attempts_console_log console_log_fields
      other_lines attempts_update split: option.splits)

lemma probe_effect:
  "database (snd (useMongoDBWithFallback ic c f m)) = database m"
  "memStorage (snd (useMongoDBWithFallback ic c f m)) = memStorage m"
  "hasAttemptedMigration m \<Longrightarrow> hasAttemptedMigration (snd (useMongoDBWithFallback ic c f m))"
  "attempts (snd (useMongoDBWithFallback ic c f m)) =
     attempts m + (if hasAttemptedMigration (snd (useMongoDBWithFallback ic c f m)) \<and>
                      \<not> hasAttemptedMigration m then 1 else 0)"
proof -
  obtain g m' where g: "getMongoStorage c m = (g, m')"
    by (cases "getMongoStorage c m")
  with getMongoStorage_effect [of c m]
  have m': "database m' = database m" "memStorage m' = memStorage m"
    "hasAttemptedMigration m' = hasAttemptedMigration m" "attempts m' = attempts m"
    by simp_all
  have u: "snd (useMongoDBWithFallback ic c f m) = m' \<or>
      (\<exists>line s. line \<noteq> attempt_line \<and>
         snd (useMongoDBWithFallback ic c f m) = console_log line (setStorage f s m'))"
    using other_lines by (auto simp: useMongoDBWithFallback_def g split: option.splits)
  show "database (snd (useMongoDBWithFallback ic c f m)) = database m"
    using u m' by (auto simp: console_log_fields setStorage_effect)
  show "memStorage (snd (useMongoDBWithFallback ic c f m)) = memStorage m"
    using u m' by (auto simp: console_log_fields setStorage_effect)
  show "hasAttemptedMigration m \<Longrightarrow> hasAttemptedMigration (snd (useMongoDBWithFallback ic c f m))"
    using u m' by (auto simp: console_log_fields setStorage_effect)
  show "attempts (snd (useMongoDBWithFallback ic c f m)) =
     attempts m + (if hasAttemptedMigration (snd (useMongoDBWithFallback ic c f m)) \<and>
                      \<not> hasAttemptedMigration m then 1 else 0)"
  proof -
    from u consider "snd (useMongoDBWithFallback ic c f m) = m'"
      | line s where "line \<noteq> attempt_line"
        "snd (useMongoDBWithFallback ic c f m) = console_log line (setStorage f s m')"
      by blast
    then show ?thesis
    proof cases
      case 1
      then show ?thesis using m' by simp
    next
      case 2
      then show ?thesis
        using m' setStorage_effect(6) [of f s m']
        by (simp add: attempts_console_log console_log_fields)
    qed
  qed
qed

lemma step_effect:
  "database (step ev m) = database m"
  "memStorage (step ev m) = memStorage m"
  "hasAttemptedMigration m \<Longrightarrow> hasAttemptedMigration (step ev m)"
  "attempts (step ev m) =
     attempts m + (if hasAttemptedMigration (step ev m) \<and> \<not> hasAttemptedMigration m
                   then 1 else 0)"
proof -
  show "database (step ev m) = database m"
    by (cases ev) (simp_all add: probe_effect setStorage_effect)
  show "memStorage (step ev m) = memStorage m"
    by (cases ev) (simp_all add: probe_effect setStorage_effect)
  show "hasAttemptedMigration m \<Longrightarrow> hasAttemptedMigration (step ev m)"
    by (cases ev) (simp_all add: probe_effect setStorage_effect)
  show "attempts (step ev m) =
     attempts m + (if hasAttemptedMigration (step ev m) \<and> \<not> hasAttemptedMigration m
                   then 1 else 0)"
  proof (cases ev)
    case (Probe ic c f)
    then show ?thesis using probe_effect(4) [of ic c f m] by simp
  next
    case (SetStorage f s)
    then show ?thesis using setStorage_effect(6) [of f s m] by simp
  qed
qed

lemma run_Cons: "run (ev # evs) m = run evs (step ev m)"
  by (simp add: run_def)

lemma run_frame: "database (run evs m) = database m \<and> memStorage (run evs m) = memStorage m"
  by (induction evs arbitrary: m) (simp_all add: run_def step_effect(1,2))

lemma run_flag: "hasAttemptedMigration m \<Longrightarrow> hasAttemptedMigration (run evs m)"
  by (induction evs arbitrary: m) (simp_all add: run_def step_effect(3))

lemma run_attempts:
  "attempts (run evs m) =
     attempts m + (if hasAttemptedMigration (run evs m) \<and> \<not> hasAttemptedMigration m
                   then 1 else 0)"
proof (induction evs arbitrary: m)
  case Nil
  then show ?case by (simp add: run_def)
next
  case (Cons ev evs)
  define m1 where "m1 = step ev m"
  define m2 where "m2 = run evs m1"
  have a: "attempts m2 =
      attempts m1 + (if hasAttemptedMigration m2 \<and> \<not> hasAttemptedMigration m1 then 1 else 0)"
    unfolding m2_def by (rule Cons.IH)
  have b: "attempts m1 =
      attempts m + (if hasAttemptedMigration m1 \<and> \<not> hasAttemptedMigration m then 1 else 0)"
    unfolding m1_def by (rule step_effect(4))
  have c: "hasAttemptedMigration m \<Longrightarrow> hasAttemptedMigration m1"
    unfolding m1_def by (rule step_effect(3))
  have d: "hasAttemptedMigration m1 \<Longrightarrow> hasAttemptedMigration m2"
    unfolding m2_def by (rule run_flag)
  have "attempts m2 =
      attempts m + (if hasAttemptedMigration m2 \<and> \<not> hasAttemptedMigration m then 1 else 0)"
    using a b c d
    by (cases "hasAttemptedMigration m"; cases "hasAttemptedMigration m1";
        cases "hasAttemptedMigration m2"; simp)
  then show ?case by (simp add: run_Cons m1_def m2_def)
qed

lemma initial_fields:
  "attempts (initial mem db) = 0" "\<not> hasAttemptedMigration (initial mem db)"
  "database (initial mem db) = db" "memStorage (initial mem db) = mem"
  by (simp_all add: initial_def attempts_def)

lemma mem_filter_predicate:
  "c \<in> set (result (mem_getConversions now st uid filters sortOptions None)) \<longleftrightarrow>
     c \<in> set (stored st) \<and> userId c = uid \<and> accepts now filters c"
  by (auto simp: mem_getConversions_result set_sort_by)

text \<open>
  The frame property depends on which array is sorted: sorting the stored array itself
  would reorder it.
\<close>

lemma sorting_the_stored_array_changes_it:
  "\<not> unchanged (memory two_files)
       ((memory two_files)\<lparr>store :=
          snd (array_sort (compareFn 0 Filename Asc)
                 (conversions (memory two_files), store (memory two_files)))\<rparr>)"
  by code_simp

subsection \<open>The persistent backend against the contract\<close>




lemma in_range_dates:
  "in_range \<lparr>gte = lo, lte = hi\<rparr> (Some x) =
     ((given lo \<or> given hi) \<and> (case lo of None \<Rightarrow> True | Some g \<Rightarrow> g \<le> x) \<and>
      (case hi of None \<Rightarrow> True | Some l \<Rightarrow> x \<le> l))"
  by (simp add: in_range_def)

lemma mongo_getConversions_query:
  "mongo_getConversions rx db uid filters sortOptions pagination =
     catch_return []
       (case getCollection db ''conversions'' of None \<Rightarrow> Inr []
        | Some c \<Rightarrow>
            find_toArray rx db (built_query uid filters)
              (case sortOptions of None \<Rightarrow> ConvertedAt | Some so \<Rightarrow> field so)
              (case sortOptions of None \<Rightarrow> - 1 | Some so \<Rightarrow> if order so = Asc then 1 else - 1)
              (case pagination of None \<Rightarrow> None
               | Some p \<Rightarrow> Some ((page p - 1) * limit p, limit p)))"
proof (cases filters)
  case None
  then show ?thesis
    by (cases "getCollection db ''conversions''")
       (simp_all add: mongo_getConversions_def built_query_def Let_def)
next
  case (Some f)
  then show ?thesis
    by (cases "getCollection db ''conversions''"; cases "search f")
       (simp_all add: mongo_getConversions_def built_query_def Let_def)
qed

lemma mongo_getConversionsCount_query:
  "mongo_getConversionsCount rx db uid filters =
     catch_return 0
       (case getCollection db ''conversions'' of None \<Rightarrow> Inr 0
        | Some c \<Rightarrow> countDocuments rx db (built_query uid filters))"
proof (cases filters)
  case None
  then show ?thesis
    by (cases "getCollection db ''conversions''")
       (simp_all add: mongo_getConversionsCount_def built_query_def Let_def)
next
  case (Some f)
  then show ?thesis
    by (cases "getCollection db ''conversions''"; cases "search f")
       (simp_all add: mongo_getConversionsCount_def built_query_def Let_def)
qed


lemma compile_rejected:
  "filters = Some f \<Longrightarrow> search f = Some s \<Longrightarrow> s \<noteq> [] \<Longrightarrow> rx s = None \<Longrightarrow>
     compile_query rx (built_query uid filters) = Inl ServerError"
  by (simp add: compile_query_def built_query_def)




lemma persistent_page_of_unpaginated:
  assumes "1 \<le> page p" and "1 \<le> limit p"
  shows "mongo_getConversions rx db uid filters sortOptions (Some p) =
        map_sum id (interval_slice ((page p - 1) * limit p) (page p * limit p))
          (mongo_getConversions rx db uid filters sortOptions None)"
proof -
  have hi: "page p * limit p = (page p - 1) * limit p + limit p"
    by (simp add: algebra_simps)
  from assms have lo: "0 \<le> (page p - 1) * limit p" by simp
  show ?thesis
  proof (cases "getCollection db ''conversions''")
    case None
    then show ?thesis
      by (simp add: mongo_getConversions_query catch_return_def interval_slice_Nil)
  next
    case (Some c)
    then show ?thesis
      unfolding hi
      by (simp add: mongo_getConversions_query paged_find [OF lo assms(2)])
  qed
qed

text \<open>With \<open>limit = 0\<close> the store applies no limit: the call returns what it returns
  without pagination.\<close>

lemma persistent_limit_zero:
  "mongo_getConversions literal_dot_regex (persistent two_files) ''u1'' None None
       (Some \<lparr>page = 1, limit = 0\<rparr>) =
     mongo_getConversions literal_dot_regex (persistent two_files) ''u1'' None None None"
  by code_simp

lemma malformed_id:
  assumes "isl (newObjectId i)"
  shows "mongo_getUserById db i = Inr None" and "mongo_getConversion db i = Inr None"
    and "mongo_deleteConversion db i = (Inr False, db)"
proof -
  obtain e where e: "newObjectId i = Inl e"
    using assms by (cases "newObjectId i") simp_all
  show "mongo_getUserById db i = Inr None"
    by (simp add: mongo_getUserById_def e catch_return_def split: option.splits)
  show "mongo_getConversion db i = Inr None"
    by (simp add: mongo_getConversion_def e catch_return_def split: option.splits)
  show "mongo_deleteConversion db i = (Inr False, db)"
    by (simp add: mongo_deleteConversion_cases e)
qed

lemma rejected_pattern:
  assumes "filters = Some f" and "search f = Some s" and "s \<noteq> []" and "rx s = None"
  shows "mongo_getConversions rx db uid filters sortOptions pagination = Inr []"
    and "mongo_getConversionsCount rx db uid filters = Inr 0"
proof -
  have c: "compile_query rx (built_query uid filters) = Inl ServerError"
    using assms by (rule compile_rejected)
  show "mongo_getConversions rx db uid filters sortOptions pagination = Inr []"
    by (simp add: mongo_getConversions_query find_toArray_def c catch_return_def
        split: option.splits)
  show "mongo_getConversionsCount rx db uid filters = Inr 0"
    by (simp add: mongo_getConversionsCount_query countDocuments_def c catch_return_def
        split: option.splits)
qed

lemma negative_skip:
  assumes "pagination = Some p" and "(page p - 1) * limit p < 0"
  shows "mongo_getConversions rx db uid filters sortOptions pagination = Inr []"
  using assms
  by (simp add: mongo_getConversions_query find_toArray_def skip_limit_def catch_return_def
      split: option.splits sum.splits)

subsection \<open>Well-formed states\<close>

text \<open>The state of a new backend is well-formed, and every operation keeps it so.\<close>

lemma keeps_fresh: "keeps h rh \<Longrightarrow> fresh h < fresh (snd rh)"
  by (simp add: keeps_def)

lemma wf_invariant:
  "wf newMemStorage"
  "wf st \<Longrightarrow> wf (snd (mem_createUser mkId now st insertUser))"
  "wf st \<Longrightarrow> wf (snd (mem_createConversion mkId now st insertConversion))"
  "wf (snd (mem_deleteConversion st i))"
  "wf st \<Longrightarrow> wf (snd (mem_getConversions now st uid filters sortOptions pagination))"
  "wf st \<Longrightarrow> wf (snd (mem_getConversionsCount now st uid filters))"
proof -
  show "wf newMemStorage"
    by (simp add: wf_def newMemStorage_def)
  show "wf st \<Longrightarrow> wf (snd (mem_createUser mkId now st insertUser))"
    by (simp add: wf_def mem_createUser_def Let_def)
  show "wf st \<Longrightarrow> wf (snd (mem_createConversion mkId now st insertConversion))"
    by (simp add: wf_def mem_createConversion_def Let_def array_push_def)
  show "wf (snd (mem_deleteConversion st i))"
    by (simp add: wf_def mem_deleteConversion_def Let_def array_filter_def alloc_def)
  show "wf (snd (mem_getConversions now st uid filters sortOptions pagination))" if "wf st"
  proof -
    have "conversions (snd (mem_getConversions now st uid filters sortOptions pagination)) =
        conversions st"
      by (subst mem_getConversions_state) simp
    moreover have "fresh (store st) <
        fresh (store (snd (mem_getConversions now st uid filters sortOptions pagination)))"
      using keeps_fresh [OF mem_getConversions_keeps] by simp
    ultimately show ?thesis using that by (simp add: wf_def)
  qed
  show "wf (snd (mem_getConversionsCount now st uid filters))" if "wf st"
  proof -
    have "conversions (snd (mem_getConversionsCount now st uid filters)) = conversions st"
      by (subst mem_getConversionsCount_state) simp
    moreover have "fresh (store st) < fresh (store (snd (mem_getConversionsCount now st uid filters)))"
      using keeps_fresh [OF mem_getConversionsCount_keeps] by simp
    ultimately show ?thesis using that by (simp add: wf_def)
  qed
qed

section \<open>The claims\<close>

text \<open>
  C1 fails on the code. On the same two conversions, \<open>B.pdf\<close> and \<open>a.pdf\<close>, the sort by
  file name in ascending order puts \<open>a.pdf\<close> first in the in-memory backend, which
  compares the lower-cased names, and \<open>B.pdf\<close> first in the persistent backend, which
  sorts by the stored names. The search \<open>..pdf\<close> finds nothing in memory, where it is a
  substring, and both conversions in the store, where it is a pattern.
\<close>

theorem backends_disagree:
  "result (mem_getConversions 0 (memory two_files) ''u1'' None
      (Some \<lparr>field = Filename, order = Asc\<rparr>) None) =
     [sample id2 ''a.pdf'' 20 (Some 6), sample id1 ''B.pdf'' 10 (Some 5)] \<and>
   mongo_getConversions literal_dot_regex (persistent two_files) ''u1'' None
      (Some \<lparr>field = Filename, order = Asc\<rparr>) None =
     Inr [sample id1 ''B.pdf'' 10 (Some 5), sample id2 ''a.pdf'' 20 (Some 6)] \<and>
   result (mem_getConversions 0 (memory two_files) ''u1''
      (Some \<lparr>search = Some ''..pdf'', dateFrom = None, dateTo = None, sizeMin = None,
             sizeMax = None\<rparr>) None None) = [] \<and>
   mongo_getConversions literal_dot_regex (persistent two_files) ''u1''
      (Some \<lparr>search = Some ''..pdf'', dateFrom = None, dateTo = None, sizeMin = None,
             sizeMax = None\<rparr>) None None =
     Inr [sample id2 ''a.pdf'' 20 (Some 6), sample id1 ''B.pdf'' 10 (Some 5)]"
  by code_simp

text \<open>
  C2. For every user and every combination of filters, \<open>getConversionsCount\<close> returns the
  length of the sequence \<open>getConversions\<close> returns without pagination, under any sort
  options, in the in-memory backend and in the persistent backend, each on its own state
  and with the same clock reading.
\<close>

theorem count_equals_length:
  "fst (mem_getConversionsCount now st uid filters) =
     length (result (mem_getConversions now st uid filters sortOptions None)) \<and>
   mongo_getConversionsCount rx db uid filters =
     map_sum id length (mongo_getConversions rx db uid filters sortOptions None)"
proof
  show "fst (mem_getConversionsCount now st uid filters) =
     length (result (mem_getConversions now st uid filters sortOptions None))"
    by (simp add: mem_getConversionsCount_result mem_getConversions_result length_sort_by)
  show "mongo_getConversionsCount rx db uid filters =
     map_sum id length (mongo_getConversions rx db uid filters sortOptions None)"
  proof (cases "getCollection db ''conversions''")
    case None
    then show ?thesis
      by (simp add: mongo_getConversionsCount_def mongo_getConversions_def catch_return_def)
  next
    case (Some c)
    then show ?thesis
      by (simp add: mongo_getConversionsCount_def mongo_getConversions_def Let_def count_find)
  qed
qed

text \<open>
  C3 fails on the persistent backend. The file name \<open>my-pdf-notes.txt\<close> does not
  contain \<open>.pdf\<close>, so the filter predicate rejects the record and the in-memory backend
  drops it; the persistent backend hands the search string to \<open>$regex\<close> as it is and
  keeps the record.
\<close>

theorem persistent_search_is_a_pattern:
  "\<not> accepts 0
       (Some \<lparr>search = Some ''.pdf'', dateFrom = None, dateTo = None, sizeMin = None,
              sizeMax = None\<rparr>)
       (sample id1 ''my-pdf-notes.txt'' 10 (Some 5)) \<and>
   mongo_getConversions literal_dot_regex
      (persistent [sample id1 ''my-pdf-notes.txt'' 10 (Some 5)]) ''u1''
      (Some \<lparr>search = Some ''.pdf'', dateFrom = None, dateTo = None, sizeMin = None,
             sizeMax = None\<rparr>) None None = Inr [sample id1 ''my-pdf-notes.txt'' 10 (Some 5)] \<and>
   result (mem_getConversions 0 (memory [sample id1 ''my-pdf-notes.txt'' 10 (Some 5)]) ''u1''
      (Some \<lparr>search = Some ''.pdf'', dateFrom = None, dateTo = None, sizeMin = None,
             sizeMax = None\<rparr>) None None) = []"
  by code_simp




text \<open>
  C5. \<open>deleteConversion\<close> answers true exactly when a conversion with the identifier was
  held before the call and none is held after it, and never raises. In memory no
  conversion with the identifier is left in any case, and a second call answers false.
  In the store, whose identifiers are distinct, a call after one that answered true
  answers false, and a call that answers false leaves the store as it was.
\<close>

theorem delete_true_iff_removed:
  "fst (mem_deleteConversion st i) =
     (present (stored st) i \<and> \<not> present (stored (snd (mem_deleteConversion st i))) i) \<and>
   \<not> present (stored (snd (mem_deleteConversion st i))) i \<and>
   fst (mem_deleteConversion (snd (mem_deleteConversion st i)) i) = False \<and>
   (distinct (map conv_id (conversions_collection db)) \<longrightarrow>
      (case newObjectId i of
         Inl e \<Rightarrow> mongo_deleteConversion db i = (Inr False, db)
       | Inr oid \<Rightarrow>
           fst (mongo_deleteConversion db i) =
             Inr (present (conversions_collection db) oid \<and>
                  \<not> present (conversions_collection (snd (mongo_deleteConversion db i))) oid)) \<and>
      (fst (mongo_deleteConversion db i) = Inr True \<longrightarrow>
         fst (mongo_deleteConversion (snd (mongo_deleteConversion db i)) i) = Inr False) \<and>
      (fst (mongo_deleteConversion db i) = Inr False \<longrightarrow> snd (mongo_deleteConversion db i) = db))"
proof (intro conjI impI)
  show "fst (mem_deleteConversion st i) =
     (present (stored st) i \<and> \<not> present (stored (snd (mem_deleteConversion st i))) i)"
    by (simp add: mem_deleteConversion_fst mem_deleteConversion_stored present_filter)
  show "\<not> present (stored (snd (mem_deleteConversion st i))) i"
    by (simp add: mem_deleteConversion_stored present_filter)
  show "fst (mem_deleteConversion (snd (mem_deleteConversion st i)) i) = False"
    by (simp add: mem_deleteConversion_fst mem_deleteConversion_stored present_filter)
next
  assume d: "distinct (map conv_id (conversions_collection db))"
  show "case newObjectId i of
         Inl e \<Rightarrow> mongo_deleteConversion db i = (Inr False, db)
       | Inr oid \<Rightarrow>
           fst (mongo_deleteConversion db i) =
             Inr (present (conversions_collection db) oid \<and>
                  \<not> present (conversions_collection (snd (mongo_deleteConversion db i))) oid)"
    using d by (auto simp: mongo_deleteConversion_cases present_remove_first split: sum.splits)
  show "snd (mongo_deleteConversion db i) = db" if "fst (mongo_deleteConversion db i) = Inr False"
    using that by (auto simp: mongo_deleteConversion_cases split: sum.splits if_splits)
  show "fst (mongo_deleteConversion (snd (mongo_deleteConversion db i)) i) = Inr False"
    if "fst (mongo_deleteConversion db i) = Inr True"
    using that d
    by (auto simp: mongo_deleteConversion_cases present_remove_first split: sum.splits if_splits)
qed

text \<open>Deleting the first of two conversions, twice, in both backends.\<close>

theorem delete_true_iff_removed_witness:
  "distinct (map conv_id (conversions_collection (persistent two_files))) \<and>
   fst (mem_deleteConversion (memory two_files) id1) \<and>
   \<not> fst (mem_deleteConversion (snd (mem_deleteConversion (memory two_files) id1)) id1) \<and>
   fst (mongo_deleteConversion (persistent two_files) id1) = Inr True \<and>
   fst (mongo_deleteConversion (snd (mongo_deleteConversion (persistent two_files) id1)) id1) =
     Inr False"
proof -
  have d: "distinct (map conv_id (conversions_collection (persistent two_files)))"
    by (simp add: persistent_def two_files_def sample_def id1_def id2_def)
  have m: "present (stored (memory two_files)) id1"
    by (simp add: stored_memory present_def two_files_def sample_def)
  have t: "fst (mongo_deleteConversion (persistent two_files) id1) = Inr True"
    by code_simp
  show ?thesis
    using d m t delete_true_iff_removed [of "memory two_files" id1 "persistent two_files"]
    by simp
qed

text \<open>
  C6. Whatever makes an operation of the persistent backend fail, a read, a count or a
  delete returns the degraded result and is never rejected: absent, the empty sequence,
  zero or false when the collection is not available or the store rejects the operation;
  absent or false for an identifier that is not an \<open>ObjectId\<close>; the empty sequence and
  zero for a search pattern the store rejects; the empty sequence for a negative skip.
  The two create operations are rejected when the collection is not available or the store
  rejects the insert, and leave the store as it was; a create that returns a record has
  inserted that record.
\<close>

theorem persistent_failures:
  "(readyState db \<noteq> 1 \<or> rejects db \<longrightarrow>
      mongo_getUserById db i = Inr None \<and> mongo_getUserByEmail db e = Inr None \<and>
      mongo_getConversions rx db uid filters sortOptions pagination = Inr [] \<and>
      mongo_getConversionsCount rx db uid filters = Inr 0 \<and>
      mongo_getConversion db i = Inr None \<and>
      mongo_deleteConversion db i = (Inr False, db) \<and>
      isl (fst (mongo_createUser oid now db insertUser)) \<and>
      snd (mongo_createUser oid now db insertUser) = db \<and>
      isl (fst (mongo_createConversion oid now db insertConversion)) \<and>
      snd (mongo_createConversion oid now db insertConversion) = db) \<and>
   (isl (newObjectId i) \<longrightarrow>
      mongo_getUserById db i = Inr None \<and> mongo_getConversion db i = Inr None \<and>
      mongo_deleteConversion db i = (Inr False, db)) \<and>
   (filters = Some f \<and> search f = Some s \<and> s \<noteq> [] \<and> rx s = None \<longrightarrow>
      mongo_getConversions rx db uid filters sortOptions pagination = Inr [] \<and>
      mongo_getConversionsCount rx db uid filters = Inr 0) \<and>
   (pagination = Some p \<and> (page p - 1) * limit p < 0 \<longrightarrow>
      mongo_getConversions rx db uid filters sortOptions pagination = Inr []) \<and>
   \<not> isl (mongo_getUserById db i) \<and> \<not> isl (mongo_getUserByEmail db e) \<and>
   \<not> isl (mongo_getConversions rx db uid filters sortOptions pagination) \<and>
   \<not> isl (mongo_getConversionsCount rx db uid filters) \<and>
   \<not> isl (mongo_getConversion db i) \<and> \<not> isl (fst (mongo_deleteConversion db i)) \<and>
   (\<not> isl (fst (mongo_createUser oid now db insertUser)) \<longrightarrow>
      readyState db = 1 \<and> \<not> rejects db \<and>
      list_ex (\<lambda>u. Inr u = fst (mongo_createUser oid now db insertUser))
        (users_collection (snd (mongo_createUser oid now db insertUser)))) \<and>
   (\<not> isl (fst (mongo_createConversion oid now db insertConversion)) \<longrightarrow>
      readyState db = 1 \<and> \<not> rejects db \<and>
      list_ex (\<lambda>c. Inr c = fst (mongo_createConversion oid now db insertConversion))
        (conversions_collection (snd (mongo_createConversion oid now db insertConversion))))"
proof -
  have catch: "\<not> isl (catch_return d body)" for d :: 'a and body
    by (simp add: catch_return_def split: sum.splits)
  have reads: "\<not> isl (mongo_getUserById db i)" "\<not> isl (mongo_getUserByEmail db e)"
    "\<not> isl (mongo_getConversions rx db uid filters sortOptions pagination)"
    "\<not> isl (mongo_getConversionsCount rx db uid filters)"
    "\<not> isl (mongo_getConversion db i)"
    by (simp_all add: mongo_getUserById_def mongo_getUserByEmail_def mongo_getConversions_def
        mongo_getConversionsCount_def mongo_getConversion_def catch)
  have del: "\<not> isl (fst (mongo_deleteConversion db i))"
    by (auto simp: mongo_deleteConversion_cases split: sum.splits)
  have failing: "mongo_getUserById db i = Inr None \<and> mongo_getUserByEmail db e = Inr None \<and>
      mongo_getConversions rx db uid filters sortOptions pagination = Inr [] \<and>
      mongo_getConversionsCount rx db uid filters = Inr 0 \<and>
      mongo_getConversion db i = Inr None"
    if "readyState db \<noteq> 1 \<or> rejects db"
    using that
    by (auto simp: mongo_getUserById_def mongo_getUserByEmail_def mongo_getConversions_def
        mongo_getConversionsCount_def mongo_getConversion_def catch_return_def getCollection_def
        findOne_def find_toArray_def countDocuments_def Let_def split: sum.splits)
  have failing_del: "mongo_deleteConversion db i = (Inr False, db)"
    if "readyState db \<noteq> 1 \<or> rejects db"
    using that by (auto simp: mongo_deleteConversion_cases split: sum.splits)
  have failing_create: "isl (fst (mongo_createUser oid now db insertUser)) \<and>
      snd (mongo_createUser oid now db insertUser) = db \<and>
      isl (fst (mongo_createConversion oid now db insertConversion)) \<and>
      snd (mongo_createConversion oid now db insertConversion) = db"
    if "readyState db \<noteq> 1 \<or> rejects db"
    using that
    by (auto simp: mongo_createUser_def mongo_createConversion_def getCollection_def
        catch_rethrow_def)
  have malformed: "mongo_getUserById db i = Inr None \<and> mongo_getConversion db i = Inr None \<and>
      mongo_deleteConversion db i = (Inr False, db)"
    if "isl (newObjectId i)"
    using malformed_id [OF that] by simp
  have pattern: "mongo_getConversions rx db uid filters sortOptions pagination = Inr [] \<and>
      mongo_getConversionsCount rx db uid filters = Inr 0"
    if h: "filters = Some f \<and> search f = Some s \<and> s \<noteq> [] \<and> rx s = None"
  proof -
    from h have a: "filters = Some f" "search f = Some s" "s \<noteq> []" "rx s = None"
      by simp_all
    show ?thesis
      by (intro conjI; rule rejected_pattern [where f = f and s = s]; rule a)
  qed
  have skip: "mongo_getConversions rx db uid filters sortOptions pagination = Inr []"
    if h: "pagination = Some p \<and> (page p - 1) * limit p < 0"
  proof -
    from h have a: "pagination = Some p" "(page p - 1) * limit p < 0"
      by simp_all
    show ?thesis
      by (rule negative_skip [where p = p]; rule a)
  qed
  have created: "readyState db = 1 \<and> \<not> rejects db \<and>
      list_ex (\<lambda>u. Inr u = fst (mongo_createUser oid now db insertUser))
        (users_collection (snd (mongo_createUser oid now db insertUser)))"
    if "\<not> isl (fst (mongo_createUser oid now db insertUser))"
    using that
    by (auto simp: mongo_createUser_def getCollection_def catch_rethrow_def Let_def
        split: if_splits)
  have created': "readyState db = 1 \<and> \<not> rejects db \<and>
      list_ex (\<lambda>c. Inr c = fst (mongo_createConversion oid now db insertConversion))
        (conversions_collection (snd (mongo_createConversion oid now db insertConversion)))"
    if "\<not> isl (fst (mongo_createConversion oid now db insertConversion))"
    using that
    by (auto simp: mongo_createConversion_def getCollection_def catch_rethrow_def Let_def
        split: if_splits)
  show ?thesis
    using reads del failing failing_del failing_create malformed pattern skip created created'
    by blast
qed

text \<open>
  A store that holds two conversions and rejects every operation; and the same store
  when it accepts them, asked for a malformed identifier, with an unmatched parenthesis
  as search string and for page 0, and asked to create a conversion and a user.
\<close>

theorem persistent_failures_witness:
  "rejects ((persistent two_files)\<lparr>rejects := True\<rparr>) \<and>
   mongo_getConversions literal_dot_regex ((persistent two_files)\<lparr>rejects := True\<rparr>) ''u1''
     None None None = Inr [] \<and>
   mongo_getConversionsCount literal_dot_regex ((persistent two_files)\<lparr>rejects := True\<rparr>) ''u1''
     None = Inr 0 \<and>
   mongo_getConversion ((persistent two_files)\<lparr>rejects := True\<rparr>) id1 = Inr None \<and>
   mongo_deleteConversion ((persistent two_files)\<lparr>rejects := True\<rparr>) id1 =
     (Inr False, (persistent two_files)\<lparr>rejects := True\<rparr>) \<and>
   isl (fst (mongo_createConversion id3 7 ((persistent two_files)\<lparr>rejects := True\<rparr>)
          \<lparr>userId = ''u1'', filename = ''c.pdf'', originalSize = 1, xmlContent = []\<rparr>)) \<and>
   isl (fst (mongo_createUser id3 7 ((persistent two_files)\<lparr>rejects := True\<rparr>)
          \<lparr>email = ''a@b.c'', password = ''x''\<rparr>)) \<and>
   isl (newObjectId ''xyz'') \<and>
   mongo_getUserById (persistent two_files) ''xyz'' = Inr None \<and>
   mongo_getConversion (persistent two_files) ''xyz'' = Inr None \<and>
   mongo_deleteConversion (persistent two_files) ''xyz'' = (Inr False, persistent two_files) \<and>
   literal_dot_regex ''('' = None \<and>
   mongo_getConversions literal_dot_regex (persistent two_files) ''u1''
     (Some \<lparr>search = Some ''('', dateFrom = None, dateTo = None, sizeMin = None, sizeMax = None\<rparr>)
     None None = Inr [] \<and>
   mongo_getConversionsCount literal_dot_regex (persistent two_files) ''u1''
     (Some \<lparr>search = Some ''('', dateFrom = None, dateTo = None, sizeMin = None, sizeMax = None\<rparr>)
     = Inr 0 \<and>
   mongo_getConversions literal_dot_regex (persistent two_files) ''u1'' None None
     (Some \<lparr>page = 0, limit = 5\<rparr>) = Inr [] \<and>
   \<not> isl (fst (mongo_createConversion id3 7 (persistent two_files)
          \<lparr>userId = ''u1'', filename = ''c.pdf'', originalSize = 1, xmlContent = []\<rparr>)) \<and>
   list_ex (\<lambda>c. Inr c = fst (mongo_createConversion id3 7 (persistent two_files)
          \<lparr>userId = ''u1'', filename = ''c.pdf'', originalSize = 1, xmlContent = []\<rparr>))
     (conversions_collection (snd (mongo_createConversion id3 7 (persistent two_files)
          \<lparr>userId = ''u1'', filename = ''c.pdf'', originalSize = 1, xmlContent = []\<rparr>))) \<and>
   \<not> isl (fst (mongo_createUser id3 7 (persistent two_files)
          \<lparr>email = ''a@b.c'', password = ''x''\<rparr>)) \<and>
   list_ex (\<lambda>u. Inr u = fst (mongo_createUser id3 7 (persistent two_files)
          \<lparr>email = ''a@b.c'', password = ''x''\<rparr>))
     (users_collection (snd (mongo_createUser id3 7 (persistent two_files)
          \<lparr>email = ''a@b.c'', password = ''x''\<rparr>)))"
proof -
  have r: "rejects ((persistent two_files)\<lparr>rejects := True\<rparr>)" by simp
  then have h: "readyState ((persistent two_files)\<lparr>rejects := True\<rparr>) \<noteq> 1 \<or>
      rejects ((persistent two_files)\<lparr>rejects := True\<rparr>)" by (rule disjI2)
  note t1 = persistent_failures [of "(persistent two_files)\<lparr>rejects := True\<rparr>" id1 "''a@b.c''"
        literal_dot_regex "''u1''" None None None id3 7 "\<lparr>email = ''a@b.c'', password = ''x''\<rparr>"
        "\<lparr>userId = ''u1'', filename = ''c.pdf'', originalSize = 1, xmlContent = []\<rparr>",
        THEN conjunct1, rule_format, OF h]
  have m: "isl (newObjectId ''xyz'')" by code_simp
  have e: "literal_dot_regex ''('' = None" by code_simp
  have hp: "Some \<lparr>search = Some ''('', dateFrom = None, dateTo = None, sizeMin = None, sizeMax = None\<rparr> =
      Some \<lparr>search = Some ''('', dateFrom = None, dateTo = None, sizeMin = None, sizeMax = None\<rparr> \<and>
      search \<lparr>search = Some ''('', dateFrom = None, dateTo = None, sizeMin = None, sizeMax = None\<rparr> =
        Some ''('' \<and> ''('' \<noteq> [] \<and> literal_dot_regex ''('' = None"
    using e by simp
  have cc: "\<not> isl (fst (mongo_createConversion id3 7 (persistent two_files)
          \<lparr>userId = ''u1'', filename = ''c.pdf'', originalSize = 1, xmlContent = []\<rparr>))"
    by (simp add: mongo_createConversion_def getCollection_def persistent_def catch_rethrow_def
        Let_def)
  have cu: "\<not> isl (fst (mongo_createUser id3 7 (persistent two_files)
          \<lparr>email = ''a@b.c'', password = ''x''\<rparr>))"
    by (simp add: mongo_createUser_def getCollection_def persistent_def catch_rethrow_def
        Let_def)
  note t = persistent_failures [of "persistent two_files" "''xyz''" "''a@b.c''"
        literal_dot_regex "''u1''"
        "Some \<lparr>search = Some ''('', dateFrom = None, dateTo = None, sizeMin = None, sizeMax = None\<rparr>"
        None None id3 7 "\<lparr>email = ''a@b.c'', password = ''x''\<rparr>"
        "\<lparr>userId = ''u1'', filename = ''c.pdf'', originalSize = 1, xmlContent = []\<rparr>"
        "\<lparr>search = Some ''('', dateFrom = None, dateTo = None, sizeMin = None, sizeMax = None\<rparr>"
        "''(''"]
  note t2 = t [THEN conjunct2, THEN conjunct1, rule_format, OF m]
  note t3 = t [THEN conjunct2, THEN conjunct2, THEN conjunct1, rule_format, OF hp]
  have t4: "(\<not> isl (fst (mongo_createUser id3 7 (persistent two_files)
          \<lparr>email = ''a@b.c'', password = ''x''\<rparr>)) \<longrightarrow>
      list_ex (\<lambda>u. Inr u = fst (mongo_createUser id3 7 (persistent two_files)
          \<lparr>email = ''a@b.c'', password = ''x''\<rparr>))
     (users_collection (snd (mongo_createUser id3 7 (persistent two_files)
          \<lparr>email = ''a@b.c'', password = ''x''\<rparr>)))) \<and>
     (\<not> isl (fst (mongo_createConversion id3 7 (persistent two_files)
          \<lparr>userId = ''u1'', filename = ''c.pdf'', originalSize = 1, xmlContent = []\<rparr>)) \<longrightarrow>
      list_ex (\<lambda>c. Inr c = fst (mongo_createConversion id3 7 (persistent two_files)
          \<lparr>userId = ''u1'', filename = ''c.pdf'', originalSize = 1, xmlContent = []\<rparr>))
     (conversions_collection (snd (mongo_createConversion id3 7 (persistent two_files)
          \<lparr>userId = ''u1'', filename = ''c.pdf'', originalSize = 1, xmlContent = []\<rparr>))))"
    using t by blast
  have hs: "Some \<lparr>page = 0, limit = 5\<rparr> = Some \<lparr>page = 0, limit = 5\<rparr> \<and>
      (page \<lparr>page = 0, limit = 5\<rparr> - 1) * limit \<lparr>page = 0, limit = 5\<rparr> < 0"
    by simp
  note t5 = persistent_failures [of "persistent two_files" "''xyz''" "''a@b.c''"
        literal_dot_regex "''u1''" None None "Some \<lparr>page = 0, limit = 5\<rparr>" id3 7
        "\<lparr>email = ''a@b.c'', password = ''x''\<rparr>"
        "\<lparr>userId = ''u1'', filename = ''c.pdf'', originalSize = 1, xmlContent = []\<rparr>"
        "\<lparr>search = Some ''('', dateFrom = None, dateTo = None, sizeMin = None, sizeMax = None\<rparr>"
        "''(''" "\<lparr>page = 0, limit = 5\<rparr>",
        THEN conjunct2, THEN conjunct2, THEN conjunct2, THEN conjunct1, rule_format, OF hs]
  from r t1 m t2 e t3 t5 cc cu t4 show ?thesis by blast
qed

text \<open>
  C7. Along any sequence of probes and \<open>setStorage\<close> calls from the initial module
  state, the migration is attempted at most once, and exactly once when the flag is set.
  From a state whose flag is set no later transition attempts it again; and the attempt
  sets the flag whether or not its body fails.
\<close>

theorem migration_attempted_at_most_once:
  "attempts (run evs (initial mem db)) \<le> 1 \<and>
   (attempts (run evs (initial mem db)) = 1) = hasAttemptedMigration (run evs (initial mem db)) \<and>
   (hasAttemptedMigration m \<longrightarrow>
      attempts (run evs m) = attempts m \<and> hasAttemptedMigration (run evs m)) \<and>
   hasAttemptedMigration (snd (migrateMemoryToMongo fails m))"
proof (intro conjI impI)
  show "attempts (run evs (initial mem db)) \<le> 1"
    using run_attempts [of evs "initial mem db"] by (simp add: initial_fields)
  show "(attempts (run evs (initial mem db)) = 1) = hasAttemptedMigration (run evs (initial mem db))"
    using run_attempts [of evs "initial mem db"] by (simp add: initial_fields)
  show "attempts (run evs m) = attempts m" if "hasAttemptedMigration m"
    using that run_attempts [of evs m] by simp
  show "hasAttemptedMigration (run evs m)" if "hasAttemptedMigration m"
    using that by (rule run_flag)
  show "hasAttemptedMigration (snd (migrateMemoryToMongo fails m))"
    by (rule migrate_effect)
qed

text \<open>
  The first probe finds the store connected and the migration fails; the store is lost
  and found again, and no second attempt is made.
\<close>

theorem migration_attempted_at_most_once_witness:
  "hasAttemptedMigration (step (Probe True False True) (initial after_upload (persistent []))) \<and>
   attempts (step (Probe True False True) (initial after_upload (persistent []))) = 1 \<and>
   attempts (run [Probe False False False, Probe True False False]
               (step (Probe True False True) (initial after_upload (persistent [])))) = 1"
proof -
  have h: "hasAttemptedMigration (step (Probe True False True) (initial after_upload (persistent [])))"
    by (simp add: useMongoDBWithFallback_def getMongoStorage_def initial_def Let_def
        console_log_fields setStorage_def migrate_effect)
  have a: "attempts (step (Probe True False True) (initial after_upload (persistent []))) = 1"
    using h step_effect(4) [of "Probe True False True" "initial after_upload (persistent [])"]
    by (simp add: initial_fields)
  show ?thesis
    using h a migration_attempted_at_most_once
      [of "[Probe False False False, Probe True False False]" after_upload "persistent []"
        "step (Probe True False True) (initial after_upload (persistent []))" True]
    by simp
qed

text \<open>
  C8 fails on the code. With one conversion created in memory and an empty, reachable
  store, the probe switches to the persistent backend and marks the migration as
  attempted, and the store still holds nothing: the conversion cannot be read through the
  persistent backend. No sequence of probes and \<open>setStorage\<close> calls writes to the store.
\<close>

theorem migration_copies_nothing:
  "stored after_upload = [sample id1 ''a.pdf'' 20 (Some 5)] \<and>
   activeStorage (step (Probe True False False) (initial after_upload (persistent []))) =
     MongoDBStorageRef \<and>
   hasAttemptedMigration (step (Probe True False False) (initial after_upload (persistent []))) \<and>
   database (step (Probe True False False) (initial after_upload (persistent []))) = persistent [] \<and>
   mongo_getConversions literal_dot_regex
     (database (step (Probe True False False) (initial after_upload (persistent []))))
     ''u1'' None None None = Inr [] \<and>
   mongo_getConversion
     (database (step (Probe True False False) (initial after_upload (persistent [])))) id1 =
     Inr None \<and>
   database (run evs m) = database m"
proof -
  have s: "stored after_upload = [sample id1 ''a.pdf'' 20 (Some 5)]"
    by (simp add: after_upload_def mem_createConversion_def Let_def newMemStorage_def stored_def
        array_push_def contents_def sample_def)
  have act: "activeStorage (step (Probe True False False) (initial after_upload (persistent []))) =
     MongoDBStorageRef"
    by (simp add: useMongoDBWithFallback_def getMongoStorage_def initial_def Let_def
        console_log_fields setStorage_effect)
  have h: "hasAttemptedMigration (step (Probe True False False) (initial after_upload (persistent [])))"
    by (simp add: useMongoDBWithFallback_def getMongoStorage_def initial_def Let_def
        console_log_fields setStorage_def migrate_effect)
  have d: "database (step (Probe True False False) (initial after_upload (persistent []))) =
      persistent []"
    by (simp add: probe_effect initial_fields)
  have q: "mongo_getConversions literal_dot_regex (persistent []) ''u1'' None None None = Inr []"
    by code_simp
  have g: "mongo_getConversion (persistent []) id1 = Inr None"
    by code_simp
  show ?thesis
    using s act h d q g run_frame [of evs m] by simp
qed

text \<open>
  C9. In a well-formed state every read of the in-memory backend (\<open>getConversions\<close>,
  \<open>getConversionsCount\<close>, \<open>getConversion\<close>, \<open>getUserById\<close>, \<open>getUserByEmail\<close>) leaves the
  users, the stored conversions with their order, the counters and every array that
  existed before the call as they were: \<open>getConversions\<close> sorts a new array.
\<close>

theorem reads_leave_state_unchanged:
  assumes "wf st"
  shows "unchanged st (snd (mem_getConversions now st uid filters sortOptions pagination)) \<and>
         unchanged st (snd (mem_getConversionsCount now st uid filters)) \<and>
         unchanged st (snd (mem_getConversion st i)) \<and>
         unchanged st (snd (mem_getUserById st i)) \<and>
         unchanged st (snd (mem_getUserByEmail st e))"
proof (intro conjI)
  show "unchanged st (snd (mem_getConversions now st uid filters sortOptions pagination))"
    using keeps_unchanged [OF mem_getConversions_keeps assms] mem_getConversions_state
    by simp
  show "unchanged st (snd (mem_getConversionsCount now st uid filters))"
    using keeps_unchanged [OF mem_getConversionsCount_keeps assms] mem_getConversionsCount_state
    by simp
qed (simp_all add: mem_getConversion_def mem_getUserById_def mem_getUserByEmail_def unchanged_refl)

text \<open>The reads on a backend that holds two conversions, which the file name sort reorders.\<close>

theorem reads_leave_state_unchanged_witness:
  "wf (memory two_files) \<and>
   unchanged (memory two_files)
     (snd (mem_getConversions 0 (memory two_files) ''u1'' None
        (Some \<lparr>field = Filename, order = Asc\<rparr>) None)) \<and>
   unchanged (memory two_files) (snd (mem_getConversionsCount 0 (memory two_files) ''u1'' None)) \<and>
   unchanged (memory two_files) (snd (mem_getConversion (memory two_files) id2)) \<and>
   unchanged (memory two_files) (snd (mem_getUserById (memory two_files) id1)) \<and>
   unchanged (memory two_files) (snd (mem_getUserByEmail (memory two_files) ''a@b.c''))"
  using reads_leave_state_unchanged [OF wf_memory, of two_files] wf_memory [of two_files]
  by simp



end
